theory Spec2Isabelle
  imports Complex_Main "HOL-Library.AList"
begin

section \<open>Python values as the orchestrator sees them\<close>

text \<open>
  The credit-report processor (\<^verbatim>\<open>credit-report-processor-gcf/main.py\<close>) handles three
  kinds of data: text (\<^verbatim>\<open>str\<close> and \<^verbatim>\<open>bytes\<close>), the documents that \<^verbatim>\<open>json.loads\<close> and
  \<^verbatim>\<open>request.get_json\<close> return, and exceptions. Text is a \<open>string\<close>; one \<open>char\<close>
  stands for one code point below 256. A decoded document is a \<open>json\<close> value, with
  Python's \<^verbatim>\<open>None\<close> as \<open>JNull\<close>. A \<^verbatim>\<open>dict\<close> is an association list in insertion
  order, read through \<open>map_of\<close>.
\<close>

datatype pyfloat = Finite rat | PosInf | NegInf | NaN

datatype json =
    JNull
  | JBool bool
  | JInt int
  | JFloat pyfloat
  | JStr string
  | JArr "json list"
  | JObj "(string \<times> json) list"

text \<open>
  Exceptions are values. The first five constructors are the classes that the module and
  the interpreter raise themselves; \<open>Other cls msg\<close> is any further subclass of
  \<^verbatim>\<open>Exception\<close> that a library call raises, with the name of its class.
  \<open>str_exn\<close> is \<^verbatim>\<open>str(e)\<close>.
\<close>

datatype exn =
    TypeError string
  | ValueError string
  | AttributeError string
  | Exception string
  | HTTPError string
  | Other string string

fun str_exn :: "exn \<Rightarrow> string" where
  "str_exn (TypeError m) = m"
| "str_exn (ValueError m) = m"
| "str_exn (AttributeError m) = m"
| "str_exn (Exception m) = m"
| "str_exn (HTTPError m) = m"
| "str_exn (Other c m) = m"

text \<open>
  \<^verbatim>\<open>isinstance(e, ValueError)\<close>, which is what an \<^verbatim>\<open>except ValueError\<close> clause tests.
  Of the classes that a decoder raises, \<^verbatim>\<open>JSONDecodeError\<close> and \<^verbatim>\<open>UnicodeDecodeError\<close>
  derive from \<^verbatim>\<open>ValueError\<close>; \<^verbatim>\<open>RecursionError\<close> and \<^verbatim>\<open>MemoryError\<close> do not.
\<close>

fun is_value_error :: "exn \<Rightarrow> bool" where
  "is_value_error (ValueError m) = True"
| "is_value_error (Other c m) = (c = ''JSONDecodeError'' \<or> c = ''UnicodeDecodeError'')"
| "is_value_error (TypeError m) = False"
| "is_value_error (AttributeError m) = False"
| "is_value_error (Exception m) = False"
| "is_value_error (HTTPError m) = False"

text \<open>Truth value testing, as \<^verbatim>\<open>not x\<close> and \<^verbatim>\<open>x and y\<close> apply it.\<close>

fun truthy :: "json \<Rightarrow> bool" where
  "truthy JNull = False"
| "truthy (JBool b) = b"
| "truthy (JInt i) = (i \<noteq> 0)"
| "truthy (JFloat f) = (f \<noteq> Finite 0)"
| "truthy (JStr s) = (s \<noteq> [])"
| "truthy (JArr xs) = (xs \<noteq> [])"
| "truthy (JObj kvs) = (kvs \<noteq> [])"

subsection \<open>String operations\<close>

definition startswith :: "string \<Rightarrow> string \<Rightarrow> bool" where
  "startswith s p = (take (length p) s = p)"

definition endswith :: "string \<Rightarrow> string \<Rightarrow> bool" where
  "endswith s p = (length p \<le> length s \<and> drop (length s - length p) s = p)"

text \<open>
  \<^verbatim>\<open>str.isspace\<close> on a single code point below 256: the ASCII controls 9 to 13 and
  28 to 31, the space, NEL (133) and the no-break space (160).
\<close>

definition py_isspace :: "char \<Rightarrow> bool" where
  "py_isspace c =
     (let n = (of_char c :: nat)
      in (9 \<le> n \<and> n \<le> 13) \<or> (28 \<le> n \<and> n \<le> 32) \<or> n = 133 \<or> n = 160)"

definition py_strip :: "string \<Rightarrow> string" where
  "py_strip s = rev (dropWhile py_isspace (rev (dropWhile py_isspace s)))"

text \<open>
  The slice \<^verbatim>\<open>s[a:-b]\<close> for \<open>b > 0\<close>: Python clamps a stop before the start of the
  string to 0, as the truncating subtraction does.
\<close>

definition py_slice :: "string \<Rightarrow> nat \<Rightarrow> nat \<Rightarrow> string" where
  "py_slice s a b = drop a (take (length s - b) s)"

fun substring_of :: "string \<Rightarrow> string \<Rightarrow> bool" where
  "substring_of p [] = (p = [])"
| "substring_of p (c # cs) = (startswith (c # cs) p \<or> substring_of p cs)"

subsection \<open>Operators on decoded documents\<close>

text \<open>\<^verbatim>\<open>key in x\<close> for a string key.\<close>

fun py_contains :: "string \<Rightarrow> json \<Rightarrow> exn + bool" where
  "py_contains k (JObj kvs) = Inr (k \<in> set (map fst kvs))"
| "py_contains k (JArr xs) = Inr (JStr k \<in> set xs)"
| "py_contains k (JStr s) = Inr (substring_of k s)"
| "py_contains k JNull = Inl (TypeError ''argument of type 'NoneType' is not iterable'')"
| "py_contains k (JBool b) = Inl (TypeError ''argument of type 'bool' is not iterable'')"
| "py_contains k (JInt i) = Inl (TypeError ''argument of type 'int' is not iterable'')"
| "py_contains k (JFloat f) = Inl (TypeError ''argument of type 'float' is not iterable'')"

text \<open>\<^verbatim>\<open>x[key]\<close> for a string key.\<close>

fun py_getitem :: "json \<Rightarrow> string \<Rightarrow> exn + json" where
  "py_getitem (JObj kvs) k =
     (case map_of kvs k of None \<Rightarrow> Inl (Other ''KeyError'' k) | Some v \<Rightarrow> Inr v)"
| "py_getitem (JArr xs) k = Inl (TypeError ''list indices must be integers or slices, not str'')"
| "py_getitem (JStr s) k = Inl (TypeError ''string indices must be integers'')"
| "py_getitem JNull k = Inl (TypeError (CHR 0x27 # ''NoneType' object is not subscriptable''))"
| "py_getitem (JBool b) k = Inl (TypeError (CHR 0x27 # ''bool' object is not subscriptable''))"
| "py_getitem (JInt i) k = Inl (TypeError (CHR 0x27 # ''int' object is not subscriptable''))"
| "py_getitem (JFloat f) k = Inl (TypeError (CHR 0x27 # ''float' object is not subscriptable''))"

text \<open>
  \<^verbatim>\<open>x.get(key, default)\<close>: only a \<^verbatim>\<open>dict\<close> has the method. The message is
  \<^verbatim>\<open>'list' object has no attribute 'get'\<close> for a list, and so on.
\<close>

definition no_attribute_get :: "string \<Rightarrow> exn" where
  "no_attribute_get t =
     AttributeError
       ([CHR 0x27] @ t @ [CHR 0x27] @ '' object has no attribute '' @
        [CHR 0x27] @ ''get'' @ [CHR 0x27])"

fun py_get :: "json \<Rightarrow> string \<Rightarrow> json \<Rightarrow> exn + json" where
  "py_get (JObj kvs) k d = Inr (case map_of kvs k of None \<Rightarrow> d | Some v \<Rightarrow> v)"
| "py_get (JArr xs) k d = Inl (no_attribute_get ''list'')"
| "py_get (JStr s) k d = Inl (no_attribute_get ''str'')"
| "py_get JNull k d = Inl (no_attribute_get ''NoneType'')"
| "py_get (JBool b) k d = Inl (no_attribute_get ''bool'')"
| "py_get (JInt i) k d = Inl (no_attribute_get ''int'')"
| "py_get (JFloat f) k d = Inl (no_attribute_get ''float'')"

text \<open>\<^verbatim>\<open>len(x)\<close>; a \<^verbatim>\<open>dict\<close> counts its keys.\<close>

fun py_len :: "json \<Rightarrow> exn + nat" where
  "py_len (JStr s) = Inr (length s)"
| "py_len (JArr xs) = Inr (length xs)"
| "py_len (JObj kvs) = Inr (length (remdups (map fst kvs)))"
| "py_len JNull = Inl (TypeError ''object of type 'NoneType' has no len()'')"
| "py_len (JBool b) = Inl (TypeError ''object of type 'bool' has no len()'')"
| "py_len (JInt i) = Inl (TypeError ''object of type 'int' has no len()'')"
| "py_len (JFloat f) = Inl (TypeError ''object of type 'float' has no len()'')"

section \<open>Stripping the Markdown fence of a generative-model response\<close>

text \<open>
  Lines 180 to 184 of \<^verbatim>\<open>parse_credit_report_with_gemini\<close>, repeated verbatim at lines
  228 to 232 of \<^verbatim>\<open>detect_violations_with_gemini\<close>:
  \<^verbatim>\<open>
    json_str = response.text.strip()
    if json_str.startswith("```json") and json_str.endswith("```"):
        json_str = json_str[7:-3].strip()
    elif json_str.startswith("```") and json_str.endswith("```"):
        json_str = json_str[3:-3].strip()
  \<close>
\<close>

definition strip_code_fence :: "string \<Rightarrow> string" where
  "strip_code_fence text =
     (let json_str = py_strip text
      in if startswith json_str ''```json'' \<and> endswith json_str ''```''
         then py_strip (py_slice json_str 7 3)
         else if startswith json_str ''```'' \<and> endswith json_str ''```''
         then py_strip (py_slice json_str 3 3)
         else json_str)"

text \<open>
  Lines 180 to 186 and 228 to 234: the stripped text goes to \<^verbatim>\<open>json.loads\<close>, which is
  the field \<open>loads\<close> of the collaborators below, so the decoder is an argument here.
\<close>

definition decode_response :: "(string \<Rightarrow> 'e + 'a) \<Rightarrow> string \<Rightarrow> 'e + 'a" where
  "decode_response decoder text = decoder (strip_code_fence text)"

text \<open>
  A response wrapped in a fence with the language tag, and in a plain fence; \<open>fenced\<close>
  holds of a stripped text that one of the two branches rewrites.
\<close>

definition fence_json :: "string \<Rightarrow> string" where
  "fence_json s = ''```json'' @ s @ ''```''"

definition fence_plain :: "string \<Rightarrow> string" where
  "fence_plain s = ''```'' @ s @ ''```''"

definition fenced :: "string \<Rightarrow> bool" where
  "fenced t = (startswith t ''```'' \<and> endswith t ''```'')"

section \<open>The collaborators\<close>

text \<open>
  Everything the module reaches outside itself is a field of \<open>world\<close>: a call returns
  \<open>Inr\<close> its result or \<open>Inl\<close> the exception it raises.
  \<^item> \<open>loads\<close> is \<^verbatim>\<open>json.loads\<close>;
  \<^item> \<open>requests_get\<close> is \<^verbatim>\<open>requests.get(pdf_url, timeout=30)\<close>, which raises on a
    timeout or a connection failure and otherwise returns the response, whatever its status;
  \<^item> \<open>pdf_reader_pages\<close> is \<^verbatim>\<open>len(PyPDF2.PdfReader(io.BytesIO(pdf_content)).pages)\<close>;
  \<^item> \<open>document_text_detection\<close> is the Vision AI call of line 117;
  \<^item> \<open>generate_content\<close> is \<^verbatim>\<open>model.generate_content(prompt)\<close> followed by the read
    of \<^verbatim>\<open>response.text\<close>, which raises when the response carries no text part;
  \<^item> \<open>insert_execute\<close> is
    \<^verbatim>\<open>supabase.table("credit_reports_analysis").insert(supabase_data).execute()\<close>
    followed by the read of \<^verbatim>\<open>response.data\<close>;
  \<^item> \<open>now_isoformat\<close> is \<^verbatim>\<open>datetime.now().isoformat()\<close>.
\<close>

record http_response =
  status_code :: nat
  http_error_msg :: string
  content :: string

record annotate_response =
  error_message :: string
  full_text_annotation :: "string option"

text \<open>
  The three prompts are fixed instructions around the interpolated data, so a prompt is
  identified by its kind and that data.
\<close>

datatype prompt =
    ParsePrompt string
  | DetectPrompt json
  | LetterPrompt json json

record supabase_data =
  user_id :: json
  pdf_url :: json
  extracted_text :: string
  parsed_data :: json
  violations :: json
  dispute_letter :: string
  processed_at :: string

record world =
  loads :: "string \<Rightarrow> exn + json"
  requests_get :: "json \<Rightarrow> exn + http_response"
  pdf_reader_pages :: "string \<Rightarrow> exn + nat"
  document_text_detection :: "string \<Rightarrow> exn + annotate_response"
  generate_content :: "prompt \<Rightarrow> exn + string"
  insert_execute :: "supabase_data \<Rightarrow> exn + json"
  now_isoformat :: string

text \<open>
  A computation returns its result or exception together with the collaborator calls it
  made, in order. \<open>loads\<close> and the clock are local and leave no entry.
\<close>

datatype call =
    HttpGet json
  | PdfReader string
  | DocumentTextDetection string
  | GenerateContent prompt
  | SupabaseInsert supabase_data

type_synonym 'a io = "(exn + 'a) \<times> call list"

definition ret :: "'a \<Rightarrow> 'a io" where
  "ret x = (Inr x, [])"

definition raise :: "exn \<Rightarrow> 'a io" where
  "raise e = (Inl e, [])"

definition lift :: "exn + 'a \<Rightarrow> 'a io" where
  "lift r = (r, [])"

definition invoke :: "call \<Rightarrow> exn + 'a \<Rightarrow> 'a io" where
  "invoke c r = (r, [c])"

definition bind :: "'a io \<Rightarrow> ('a \<Rightarrow> 'b io) \<Rightarrow> 'b io" where
  "bind m f =
     (case m of
        (Inl e, cs) \<Rightarrow> (Inl e, cs)
      | (Inr x, cs) \<Rightarrow> (case f x of (r, cs') \<Rightarrow> (r, cs @ cs')))"

section \<open>The processing steps\<close>

text \<open>
  \<^verbatim>\<open>Response.raise_for_status\<close>; line 310 carries the comment
  \<^verbatim>\<open># Raise an HTTPError for bad responses (4xx or 5xx)\<close>.
\<close>

definition raise_for_status :: "http_response \<Rightarrow> exn + unit" where
  "raise_for_status r =
     (if 400 \<le> status_code r \<and> status_code r < 600
      then Inl (HTTPError (http_error_msg r)) else Inr ())"

text \<open>
  Lines 100 to 130. The handler of line 128 logs and re-raises, so every exception of the
  body leaves the function unchanged.
\<close>

definition extract_text_from_pdf_with_vision_ai :: "world \<Rightarrow> string \<Rightarrow> string io" where
  "extract_text_from_pdf_with_vision_ai w pdf_content =
     bind (invoke (PdfReader pdf_content) (pdf_reader_pages w pdf_content)) (\<lambda>pages.
       if pages = 0 then raise (ValueError ''PDF has no pages'')
       else bind (invoke (DocumentTextDetection pdf_content)
                    (document_text_detection w pdf_content)) (\<lambda>response.
         if error_message response \<noteq> []
         then raise (Exception (''Vision AI error: '' @ error_message response))
         else (case full_text_annotation response of
                 Some text \<Rightarrow> ret text
               | None \<Rightarrow> ret [])))"

text \<open>Lines 132 to 191; the handler of line 189 logs and re-raises.\<close>

definition parse_credit_report_with_gemini :: "world \<Rightarrow> string \<Rightarrow> json io" where
  "parse_credit_report_with_gemini w credit_report_text =
     bind (invoke (GenerateContent (ParsePrompt credit_report_text))
             (generate_content w (ParsePrompt credit_report_text))) (\<lambda>text.
       lift (decode_response (loads w) text))"

text \<open>
  Lines 193 to 239. The log line of line 235 takes \<^verbatim>\<open>len(violations)\<close> inside the
  \<^verbatim>\<open>try\<close>, so a decoded value without a length raises there.
\<close>

definition detect_violations_with_gemini :: "world \<Rightarrow> json \<Rightarrow> json io" where
  "detect_violations_with_gemini w parsed =
     bind (invoke (GenerateContent (DetectPrompt parsed))
             (generate_content w (DetectPrompt parsed))) (\<lambda>text.
       bind (lift (decode_response (loads w) text)) (\<lambda>vs.
         bind (lift (py_len vs)) (\<lambda>n. ret vs)))"

text \<open>Lines 241 to 273: the text of the response is returned as it is.\<close>

definition generate_dispute_letter_with_gemini :: "world \<Rightarrow> json \<Rightarrow> json \<Rightarrow> string io" where
  "generate_dispute_letter_with_gemini w personal_info vs =
     invoke (GenerateContent (LetterPrompt personal_info vs))
       (generate_content w (LetterPrompt personal_info vs))"

section \<open>The entry point\<close>

text \<open>
  A request is its body and whether its content type announces JSON.
  \<^verbatim>\<open>request.get_json(silent=True)\<close> returns \<^verbatim>\<open>None\<close> when the content type is not
  JSON, and otherwise hands the body to the decoder inside
  \<^verbatim>\<open>try: ... except ValueError\<close>: a \<^verbatim>\<open>ValueError\<close> of the decoder is silenced and gives
  \<^verbatim>\<open>None\<close>, any other exception leaves the call.
\<close>

record request =
  is_json :: bool
  data :: string

definition get_json_silent :: "world \<Rightarrow> request \<Rightarrow> exn + json" where
  "get_json_silent w req =
     (if \<not> is_json req then Inr JNull
      else (case loads w (data req) of
              Inl e \<Rightarrow> if is_value_error e then Inr JNull else Inl e
            | Inr v \<Rightarrow> Inr v))"

text \<open>
  Lines 292 to 298, once for each field:
  \<^verbatim>\<open>
    pdf_url = None
    if request_json and 'pdf_url' in request_json:
        pdf_url = request_json['pdf_url']
  \<close>
\<close>

definition read_field :: "json \<Rightarrow> string \<Rightarrow> exn + json" where
  "read_field request_json k =
     (if \<not> truthy request_json then Inr JNull
      else (case py_contains k request_json of
              Inl e \<Rightarrow> Inl e
            | Inr True \<Rightarrow> py_getitem request_json k
            | Inr False \<Rightarrow> Inr JNull))"

definition error_body :: "string \<Rightarrow> json" where
  "error_body msg = JObj [(''status'', JStr ''error''), (''message'', JStr msg)]"

definition summary :: "nat \<Rightarrow> nat \<Rightarrow> nat \<Rightarrow> json" where
  "summary v a i =
     JObj [(''violations_found'', JInt (int v)),
           (''accounts_analyzed'', JInt (int a)),
           (''inquiries_found'', JInt (int i))]"

definition success_body :: "json \<Rightarrow> json \<Rightarrow> json" where
  "success_body response_data s =
     JObj [(''status'', JStr ''success''),
           (''message'', JStr ''Credit report processed successfully''),
           (''data'', response_data),
           (''summary'', s)]"

text \<open>
  The document of lines 355 to 364. The three counts are taken while the dictionary is
  built, so a value without a length raises there, after the record is stored.
\<close>

definition success_response :: "json \<Rightarrow> json \<Rightarrow> json \<Rightarrow> exn + json" where
  "success_response response_data detected_violations parsed =
     (case py_len detected_violations of
        Inl e \<Rightarrow> Inl e
      | Inr nv \<Rightarrow>
          (case py_get parsed ''accounts'' (JArr []) of
             Inl e \<Rightarrow> Inl e
           | Inr accounts \<Rightarrow>
               (case py_len accounts of
                  Inl e \<Rightarrow> Inl e
                | Inr na \<Rightarrow>
                    (case py_get parsed ''inquiries'' (JArr []) of
                       Inl e \<Rightarrow> Inl e
                     | Inr inquiries \<Rightarrow>
                         (case py_len inquiries of
                            Inl e \<Rightarrow> Inl e
                          | Inr ni \<Rightarrow>
                              Inr (success_body response_data (summary nv na ni)))))))"

text \<open>
  The body of the \<^verbatim>\<open>try\<close> of lines 306 to 364. It returns the document that line 355
  serialises.
\<close>

definition pipeline :: "world \<Rightarrow> json \<Rightarrow> json \<Rightarrow> json io" where
  "pipeline w url uid =
     bind (invoke (HttpGet url) (requests_get w url)) (\<lambda>pdf_response.
     bind (lift (raise_for_status pdf_response)) (\<lambda>u.
     bind (extract_text_from_pdf_with_vision_ai w (content pdf_response)) (\<lambda>text.
     if text = [] then raise (ValueError ''Could not extract text from PDF.'')
     else
     bind (parse_credit_report_with_gemini w text) (\<lambda>parsed.
     if \<not> truthy parsed then raise (ValueError ''Could not parse credit report data.'')
     else
     bind (detect_violations_with_gemini w parsed) (\<lambda>detected_violations.
     bind (lift (py_get parsed ''personal_info'' (JObj []))) (\<lambda>personal_info.
     bind (generate_dispute_letter_with_gemini w personal_info detected_violations) (\<lambda>letter.
     bind (invoke
             (SupabaseInsert \<lparr>user_id = uid, pdf_url = url, extracted_text = text,
                parsed_data = parsed, violations = detected_violations,
                dispute_letter = letter, processed_at = now_isoformat w\<rparr>)
             (insert_execute w \<lparr>user_id = uid, pdf_url = url, extracted_text = text,
                parsed_data = parsed, violations = detected_violations,
                dispute_letter = letter, processed_at = now_isoformat w\<rparr>)) (\<lambda>response_data.
     lift (success_response response_data detected_violations parsed)))))))))"

text \<open>
  What an invocation produces: the pair \<^verbatim>\<open>(body, status)\<close> that the function returns, or
  an exception that leaves it (lines 288 to 298 stand outside the \<^verbatim>\<open>try\<close>).
\<close>

datatype outcome = Response json nat | Unhandled exn

definition process_credit_report :: "world \<Rightarrow> request \<Rightarrow> outcome \<times> call list" where
  "process_credit_report w req =
     (case get_json_silent w req of
        Inl e \<Rightarrow> (Unhandled e, [])
      | Inr request_json \<Rightarrow>
     (case read_field request_json ''pdf_url'' of
        Inl e \<Rightarrow> (Unhandled e, [])
      | Inr url \<Rightarrow>
          (case read_field request_json ''user_id'' of
             Inl e \<Rightarrow> (Unhandled e, [])
           | Inr uid \<Rightarrow>
               if \<not> truthy url \<or> \<not> truthy uid
               then (Response (error_body ''Missing pdf_url or user_id'') 400, [])
               else (case pipeline w url uid of
                       (Inl e, cs) \<Rightarrow> (Response (error_body (str_exn e)) 500, cs)
                     | (Inr body, cs) \<Rightarrow> (Response body 200, cs)))))"

section \<open>A decoder for concrete runs\<close>

text \<open>
  \<^verbatim>\<open>json.loads\<close> belongs to the standard library, so the model takes it as the field
  \<open>loads\<close> and every general statement below holds for any decoder. To run the entry
  point on concrete responses we use a decoder of the fragment of JSON without escape
  sequences, fractions, exponents and the constants \<^verbatim>\<open>NaN\<close> and \<^verbatim>\<open>Infinity\<close>: white
  space, the three literals, integers, strings, arrays and objects. A repeated key keeps
  its first position and its last value, as in a \<^verbatim>\<open>dict\<close>. Text outside the fragment is
  rejected with \<^verbatim>\<open>JSONDecodeError\<close>, the message of the exception being shortened to its
  first words.

  The scanner of \<^verbatim>\<open>json.loads\<close> enters a recursive call at every \<^verbatim>\<open>[\<close> and \<^verbatim>\<open>{\<close>, and
  raises \<^verbatim>\<open>RecursionError\<close> there when the interpreter's recursion limit is reached. The
  decoder takes the number of levels that are left as an argument; \<open>scanner_depth\<close> is
  what Python 3.11 with its default limit of 1000 leaves to a call from the top level.
  The recursion of the model itself is bounded by fuel, twice the length of the text
  plus two.
\<close>

definition json_ws :: "char \<Rightarrow> bool" where
  "json_ws c = (c = CHR '' '' \<or> c = CHR 0x09 \<or> c = CHR 0x0A \<or> c = CHR 0x0D)"

definition skip_ws :: "string \<Rightarrow> string" where
  "skip_ws cs = dropWhile json_ws cs"

definition is_digit :: "char \<Rightarrow> bool" where
  "is_digit c = (48 \<le> (of_char c :: nat) \<and> (of_char c :: nat) \<le> 57)"

definition digits_value :: "string \<Rightarrow> int" where
  "digits_value ds = foldl (\<lambda>n c. 10 * n + (int (of_char c) - 48)) 0 ds"

definition scan_digits :: "string \<Rightarrow> (int \<times> string) option" where
  "scan_digits cs =
     (let ds = takeWhile is_digit cs; r = dropWhile is_digit cs
      in if ds = [] \<or> (hd ds = CHR ''0'' \<and> length ds > 1) then None
         else (case r of
                 [] \<Rightarrow> Some (digits_value ds, r)
               | c # r' \<Rightarrow>
                   if c = CHR ''.'' \<or> c = CHR ''e'' \<or> c = CHR ''E'' then None
                   else Some (digits_value ds, r)))"

definition scan_number :: "string \<Rightarrow> (json \<times> string) option" where
  "scan_number cs =
     (case cs of
        [] \<Rightarrow> None
      | c # r \<Rightarrow>
          if c = CHR ''-''
          then map_option (\<lambda>(n, r'). (JInt (- n), r')) (scan_digits r)
          else map_option (\<lambda>(n, r'). (JInt n, r')) (scan_digits cs))"

text \<open>The characters of a string up to its closing quote, the opening quote already read.\<close>

fun scan_string :: "string \<Rightarrow> (string \<times> string) option" where
  "scan_string [] = None"
| "scan_string (c # cs) =
     (if c = CHR 0x22 then Some ([], cs)
      else if c = CHR 0x5C \<or> (of_char c :: nat) < 32 then None
      else map_option (\<lambda>(s, r). (c # s, r)) (scan_string cs))"

definition expecting_value :: exn where
  "expecting_value = Other ''JSONDecodeError'' ''Expecting value''"

definition too_deep :: "string \<Rightarrow> exn" where
  "too_deep kind =
     Other ''RecursionError''
       (''maximum recursion depth exceeded while decoding a JSON '' @ kind @
        '' from a unicode string'')"

definition or_reject :: "'a option \<Rightarrow> exn + 'a" where
  "or_reject r = (case r of None \<Rightarrow> Inl expecting_value | Some x \<Rightarrow> Inr x)"

text \<open>The first argument is the fuel, the second the number of levels left.\<close>

fun scan_value :: "nat \<Rightarrow> nat \<Rightarrow> string \<Rightarrow> exn + json \<times> string"
  and scan_items :: "nat \<Rightarrow> nat \<Rightarrow> string \<Rightarrow> json list \<Rightarrow> exn + json \<times> string"
  and scan_members ::
    "nat \<Rightarrow> nat \<Rightarrow> string \<Rightarrow> (string \<times> json) list \<Rightarrow> exn + json \<times> string"
where
  "scan_value 0 depth cs = Inl expecting_value"
| "scan_value (Suc n) depth cs =
     (case cs of
        [] \<Rightarrow> Inl expecting_value
      | c # r \<Rightarrow>
          if c = CHR ''[''
          then (if depth = 0 then Inl (too_deep ''array'')
                else (case skip_ws r of
                        [] \<Rightarrow> Inl expecting_value
                      | d # r' \<Rightarrow> if d = CHR '']'' then Inr (JArr [], r')
                                 else scan_items n (depth - 1) (d # r') []))
          else if c = CHR ''{''
          then (if depth = 0 then Inl (too_deep ''object'')
                else (case skip_ws r of
                        [] \<Rightarrow> Inl expecting_value
                      | d # r' \<Rightarrow> if d = CHR ''}'' then Inr (JObj [], r')
                                 else scan_members n (depth - 1) (d # r') []))
          else if c = CHR 0x22
          then or_reject (map_option (\<lambda>(s, r'). (JStr s, r')) (scan_string r))
          else if startswith cs ''null'' then Inr (JNull, drop 4 cs)
          else if startswith cs ''true'' then Inr (JBool True, drop 4 cs)
          else if startswith cs ''false'' then Inr (JBool False, drop 5 cs)
          else or_reject (scan_number cs))"
| "scan_items 0 depth cs acc = Inl expecting_value"
| "scan_items (Suc n) depth cs acc =
     (case scan_value n depth cs of
        Inl e \<Rightarrow> Inl e
      | Inr (v, r) \<Rightarrow>
          (case skip_ws r of
             [] \<Rightarrow> Inl expecting_value
           | d # r' \<Rightarrow>
               if d = CHR '','' then scan_items n depth (skip_ws r') (acc @ [v])
               else if d = CHR '']'' then Inr (JArr (acc @ [v]), r')
               else Inl expecting_value))"
| "scan_members 0 depth cs acc = Inl expecting_value"
| "scan_members (Suc n) depth cs acc =
     (case cs of
        [] \<Rightarrow> Inl expecting_value
      | q # r \<Rightarrow>
          if q \<noteq> CHR 0x22 then Inl expecting_value
          else (case scan_string r of
                  None \<Rightarrow> Inl expecting_value
                | Some (k, r1) \<Rightarrow>
                    (case skip_ws r1 of
                       [] \<Rightarrow> Inl expecting_value
                     | c # r2 \<Rightarrow>
                         if c \<noteq> CHR '':'' then Inl expecting_value
                         else (case scan_value n depth (skip_ws r2) of
                                 Inl e \<Rightarrow> Inl e
                               | Inr (v, r3) \<Rightarrow>
                                   (case skip_ws r3 of
                                      [] \<Rightarrow> Inl expecting_value
                                    | d # r4 \<Rightarrow>
                                        if d = CHR '',''
                                        then scan_members n depth (skip_ws r4)
                                               (AList.update k v acc)
                                        else if d = CHR ''}''
                                        then Inr (JObj (AList.update k v acc), r4)
                                        else Inl expecting_value)))))"

definition loads_bounded :: "nat \<Rightarrow> string \<Rightarrow> exn + json" where
  "loads_bounded depth s =
     (case scan_value (2 * length s + 2) depth (skip_ws s) of
        Inl e \<Rightarrow> Inl e
      | Inr (v, r) \<Rightarrow>
          if skip_ws r = [] then Inr v
          else Inl (Other ''JSONDecodeError'' ''Extra data''))"

definition scanner_depth :: nat where
  "scanner_depth = 994"

definition loads_fragment :: "string \<Rightarrow> exn + json" where
  "loads_fragment s = loads_bounded scanner_depth s"

section \<open>Stages of a run\<close>

text \<open>
  The conditions under which a run reaches each step, read off the entry point in order:
  the request carries two truthy fields, the fetch returns a response that
  \<^verbatim>\<open>raise_for_status\<close> lets through, the extraction returns non-empty text, the
  structuring step returns a truthy document, the detection step returns, and the letter
  step returns.
\<close>

definition accepted :: "world \<Rightarrow> request \<Rightarrow> json \<Rightarrow> json \<Rightarrow> bool" where
  "accepted w req url uid =
     (case get_json_silent w req of
        Inl e \<Rightarrow> False
      | Inr request_json \<Rightarrow>
          read_field request_json ''pdf_url'' = Inr url \<and>
          read_field request_json ''user_id'' = Inr uid \<and>
          truthy url \<and> truthy uid)"

definition fetched :: "world \<Rightarrow> json \<Rightarrow> string \<Rightarrow> bool" where
  "fetched w url pdf_content =
     (case requests_get w url of
        Inl e \<Rightarrow> False
      | Inr r \<Rightarrow> raise_for_status r = Inr () \<and> content r = pdf_content)"

definition extracted :: "world \<Rightarrow> string \<Rightarrow> string \<Rightarrow> bool" where
  "extracted w pdf_content text =
     (fst (extract_text_from_pdf_with_vision_ai w pdf_content) = Inr text \<and> text \<noteq> [])"

definition structured :: "world \<Rightarrow> string \<Rightarrow> json \<Rightarrow> bool" where
  "structured w text parsed =
     (fst (parse_credit_report_with_gemini w text) = Inr parsed \<and> truthy parsed)"

definition detected :: "world \<Rightarrow> json \<Rightarrow> json \<Rightarrow> bool" where
  "detected w parsed vs = (fst (detect_violations_with_gemini w parsed) = Inr vs)"

definition drafted :: "world \<Rightarrow> json \<Rightarrow> json \<Rightarrow> string \<Rightarrow> bool" where
  "drafted w parsed vs letter =
     (case py_get parsed ''personal_info'' (JObj []) of
        Inl e \<Rightarrow> False
      | Inr personal_info \<Rightarrow>
          fst (generate_dispute_letter_with_gemini w personal_info vs) = Inr letter)"

text \<open>
  The condition of the specification on a record that is written: every upstream step has
  produced a non-empty, well-formed result. In its words a fetch succeeds on a 2xx status
  only and a draft that is empty has failed.
\<close>

definition upstream_succeeded :: "world \<Rightarrow> supabase_data \<Rightarrow> bool" where
  "upstream_succeeded w r =
     (case requests_get w (pdf_url r) of
        Inl e \<Rightarrow> False
      | Inr resp \<Rightarrow>
          200 \<le> status_code resp \<and> status_code resp < 300 \<and>
          fst (extract_text_from_pdf_with_vision_ai w (content resp)) = Inr (extracted_text r) \<and>
          extracted_text r \<noteq> [] \<and>
          fst (parse_credit_report_with_gemini w (extracted_text r)) = Inr (parsed_data r) \<and>
          truthy (parsed_data r) \<and>
          fst (detect_violations_with_gemini w (parsed_data r)) = Inr (violations r) \<and>
          (case py_get (parsed_data r) ''personal_info'' (JObj []) of
             Inl e \<Rightarrow> False
           | Inr personal_info \<Rightarrow>
               fst (generate_dispute_letter_with_gemini w personal_info (violations r)) =
                 Inr (dispute_letter r)) \<and>
          dispute_letter r \<noteq> [])"

text \<open>The value that line 361 and line 362 count: the entry of the report, or \<^verbatim>\<open>[]\<close>.\<close>

definition entry_or_empty :: "json \<Rightarrow> string \<Rightarrow> json" where
  "entry_or_empty parsed k =
     (case parsed of
        JObj kvs \<Rightarrow> (case map_of kvs k of None \<Rightarrow> JArr [] | Some v \<Rightarrow> v)
      | _ \<Rightarrow> JArr [])"

section \<open>Concrete runs\<close>

text \<open>
  The payload of \<^verbatim>\<open>test_local.py\<close> and collaborators that all succeed: a one-page PDF,
  a structuring response in a fence, one violation, a letter.
\<close>

definition sample_request :: request where
  \<open>sample_request =
     \<lparr>is_json = True,
      data = ''{"pdf_url": "https://example.com/test-credit-report.pdf", "user_id": "test-user-123"}''\<rparr>\<close>

definition sample_url :: json where
  "sample_url = JStr ''https://example.com/test-credit-report.pdf''"

definition sample_uid :: json where
  "sample_uid = JStr ''test-user-123''"

definition sample_structure :: string where
  \<open>sample_structure =
     ''```json {"personal_info": {"name": "JOHN DOE"}, "accounts": [{"creditor_name": "CHASE BANK"}], "inquiries": []} ```''\<close>

definition sample_detect :: string where
  \<open>sample_detect = ''[{"title": "Obsolete Charge-Off"}]''\<close>

definition sample_text :: string where
  "sample_text = ''JOHN DOE CHASE BANK Current''"

definition sample_personal_info :: json where
  "sample_personal_info = JObj [(''name'', JStr ''JOHN DOE'')]"

definition sample_parsed :: json where
  "sample_parsed =
     JObj [(''personal_info'', sample_personal_info),
           (''accounts'', JArr [JObj [(''creditor_name'', JStr ''CHASE BANK'')]]),
           (''inquiries'', JArr [])]"

definition sample_violations :: json where
  "sample_violations = JArr [JObj [(''title'', JStr ''Obsolete Charge-Off'')]]"

definition sample_stored :: json where
  "sample_stored = JArr [JObj [(''id'', JInt 1)]]"

definition generate_with :: "string \<Rightarrow> string \<Rightarrow> string \<Rightarrow> prompt \<Rightarrow> exn + string" where
  "generate_with structure detect letter p =
     (case p of
        ParsePrompt text \<Rightarrow> Inr structure
      | DetectPrompt parsed \<Rightarrow> Inr detect
      | LetterPrompt personal_info vs \<Rightarrow> Inr letter)"

definition sample_world :: world where
  "sample_world =
     \<lparr>loads = loads_fragment,
      requests_get = (\<lambda>url. Inr \<lparr>status_code = 200, http_error_msg = [], content = ''%PDF-1.4''\<rparr>),
      pdf_reader_pages = (\<lambda>pdf_content. Inr 1),
      document_text_detection = (\<lambda>pdf_content.
        Inr \<lparr>error_message = [], full_text_annotation = Some sample_text\<rparr>),
      generate_content = generate_with sample_structure sample_detect ''Dear Bureau'',
      insert_execute = (\<lambda>r. Inr sample_stored),
      now_isoformat = ''2024-01-01T00:00:00''\<rparr>"

definition sample_record :: "json \<Rightarrow> json \<Rightarrow> string \<Rightarrow> supabase_data" where
  "sample_record parsed vs letter =
     \<lparr>user_id = sample_uid, pdf_url = sample_url, extracted_text = sample_text,
      parsed_data = parsed, violations = vs, dispute_letter = letter,
      processed_at = ''2024-01-01T00:00:00''\<rparr>"

definition stored_record :: supabase_data where
  "stored_record = sample_record sample_parsed sample_violations ''Dear Bureau''"

text \<open>The calls of a run that reaches the store, for the given decoded documents.\<close>

definition full_trace :: "json \<Rightarrow> json \<Rightarrow> json \<Rightarrow> string \<Rightarrow> call list" where
  "full_trace parsed personal_info vs letter =
     [HttpGet sample_url, PdfReader ''%PDF-1.4'', DocumentTextDetection ''%PDF-1.4'',
      GenerateContent (ParsePrompt sample_text),
      GenerateContent (DetectPrompt parsed),
      GenerateContent (LetterPrompt personal_info vs),
      SupabaseInsert (sample_record parsed vs letter)]"

text \<open>Variations of the run: one collaborator replaced, the others as above.\<close>

definition timeout_world :: world where
  "timeout_world =
     sample_world\<lparr>requests_get := (\<lambda>url. Inl (Other ''Timeout'' ''Read timed out.''))\<rparr>"

definition not_found_world :: world where
  "not_found_world =
     sample_world\<lparr>requests_get := (\<lambda>url.
       Inr \<lparr>status_code = 404, http_error_msg = ''404 Client Error: Not Found'',
            content = []\<rparr>)\<rparr>"

definition multiple_choices_world :: world where
  "multiple_choices_world =
     sample_world\<lparr>requests_get := (\<lambda>url.
       Inr \<lparr>status_code = 300, http_error_msg = [], content = ''%PDF-1.4''\<rparr>)\<rparr>"

definition no_annotation_world :: world where
  "no_annotation_world =
     sample_world\<lparr>document_text_detection := (\<lambda>pdf_content.
       Inr \<lparr>error_message = [], full_text_annotation = None\<rparr>)\<rparr>"

definition vision_error_world :: world where
  "vision_error_world =
     sample_world\<lparr>document_text_detection := (\<lambda>pdf_content.
       Inr \<lparr>error_message = ''Bad image data.'', full_text_annotation = None\<rparr>)\<rparr>"

definition empty_structure_world :: world where
  "empty_structure_world =
     sample_world\<lparr>generate_content := generate_with [] sample_detect ''Dear Bureau''\<rparr>"

definition falsy_structure_world :: world where
  "falsy_structure_world =
     sample_world\<lparr>generate_content :=
       generate_with ''```json {} ```'' sample_detect ''Dear Bureau''\<rparr>"

definition no_violations_world :: world where
  "no_violations_world =
     sample_world\<lparr>generate_content := generate_with sample_structure ''[]'' ''Dear Bureau''\<rparr>"

definition empty_letter_world :: world where
  "empty_letter_world =
     sample_world\<lparr>generate_content := generate_with sample_structure sample_detect []\<rparr>"

definition null_accounts_structure :: string where
  \<open>null_accounts_structure = ''{"personal_info": {"name": "JOHN DOE"}, "accounts": null}''\<close>

definition null_accounts_parsed :: json where
  "null_accounts_parsed =
     JObj [(''personal_info'', sample_personal_info), (''accounts'', JNull)]"

definition null_accounts_world :: world where
  "null_accounts_world =
     sample_world\<lparr>generate_content :=
       generate_with null_accounts_structure ''[]'' ''Dear Bureau''\<rparr>"

definition deep_request :: request where
  "deep_request = \<lparr>is_json = True, data = replicate 1000 (CHR ''['')\<rparr>"

definition insert_fails_world :: world where
  "insert_fails_world =
     sample_world\<lparr>insert_execute := (\<lambda>r.
       Inl (Other ''APIError'' ''permission denied for table credit_reports_analysis''))\<rparr>"

section \<open>Properties of the string operations\<close>

lemma dropWhile_unchanged: "xs = [] \<or> \<not> P (hd xs) \<Longrightarrow> dropWhile P xs = xs"
  by (cases xs) auto

lemma py_strip_ends:
  "py_strip s = [] \<or> (\<not> py_isspace (hd (py_strip s)) \<and> \<not> py_isspace (last (py_strip s)))"
proof (cases "py_strip s = []")
  case True
  then show ?thesis by simp
next
  case False
  define u where "u = dropWhile py_isspace s"
  define d where "d = dropWhile py_isspace (rev u)"
  have t: "py_strip s = rev d" by (simp add: py_strip_def u_def d_def)
  with False have dne: "d \<noteq> []" by simp
  then have l: "\<not> py_isspace (hd d)" unfolding d_def by (rule hd_dropWhile)
  have "rev u = takeWhile py_isspace (rev u) @ d" by (simp add: d_def)
  then have "u = rev d @ rev (takeWhile py_isspace (rev u))"
    by (metis rev_append rev_rev_ident)
  then obtain x where ux: "u = rev d @ x" ..
  from dne have "hd (rev d @ x) = hd (rev d)" by simp
  with ux have hu: "hd u = hd (rev d)" by simp
  from ux dne have une: "u \<noteq> []" by simp
  from une have "\<not> py_isspace (hd u)" unfolding u_def by (rule hd_dropWhile)
  with hu l dne t show ?thesis by (simp add: last_rev)
qed

lemma py_strip_fixed:
  assumes "t = [] \<or> (\<not> py_isspace (hd t) \<and> \<not> py_isspace (last t))"
  shows "py_strip t = t"
proof (cases "t = []")
  case True
  then show ?thesis by (simp add: py_strip_def)
next
  case False
  with assms have h: "\<not> py_isspace (hd t)" and l: "\<not> py_isspace (last t)" by auto
  from h False have a: "dropWhile py_isspace t = t" by (simp add: dropWhile_unchanged)
  from l False have "dropWhile py_isspace (rev t) = rev t"
    by (simp add: dropWhile_unchanged hd_rev)
  with a show ?thesis by (simp add: py_strip_def)
qed

lemma py_strip_idem: "py_strip (py_strip s) = py_strip s"
  using py_strip_ends [of s] by (rule py_strip_fixed)

lemma backtick_not_space: "\<not> py_isspace (CHR 0x60)"
  by (simp add: py_isspace_def)

lemma py_strip_fence_json: "py_strip (fence_json s) = fence_json s"
  by (rule py_strip_fixed) (simp add: fence_json_def backtick_not_space)

lemma py_strip_fence_plain: "py_strip (fence_plain s) = fence_plain s"
  by (rule py_strip_fixed) (simp add: fence_plain_def backtick_not_space)

lemma startswith_append: "startswith t (p @ q) \<Longrightarrow> startswith t p"
proof -
  assume "startswith t (p @ q)"
  then have "take (length p + length q) t = p @ q" by (simp add: startswith_def)
  then have "take (length p) (take (length p + length q) t) = take (length p) (p @ q)"
    by simp
  then show ?thesis by (simp add: startswith_def min_def)
qed

lemma startswith_json_fence: "startswith (s @ ''```'') ''json'' = startswith s ''json''"
proof (cases "4 \<le> length s")
  case True
  then show ?thesis by (simp add: startswith_def)
next
  case False
  then have l: "length s < 4" by simp
  have n: "take 4 s \<noteq> ''json''"
  proof
    assume "take 4 s = ''json''"
    then have "length (take 4 s) = length ''json''" by (rule arg_cong)
    with l show False by simp
  qed
  have m: "take 4 (s @ ''```'') \<noteq> ''json''"
  proof
    assume e: "take 4 (s @ ''```'') = ''json''"
    have "(s @ ''```'') ! length s = CHR 0x60" by simp
    with l have "take 4 (s @ ''```'') ! length s = CHR 0x60" by (simp only: nth_take)
    with e have "''json'' ! length s = CHR 0x60" by simp
    moreover from l have "length s = 0 \<or> length s = 1 \<or> length s = 2 \<or> length s = 3"
      by arith
    ultimately show False by auto
  qed
  have len: "length ''json'' = 4" by simp
  from n m show ?thesis unfolding startswith_def len by simp
qed

lemma strip_code_fence_fence_json: "strip_code_fence (fence_json s) = py_strip s"
  by (simp add: strip_code_fence_def py_strip_fence_json Let_def)
    (simp add: fence_json_def startswith_def endswith_def py_slice_def)

lemma strip_code_fence_fence_plain:
  "strip_code_fence (fence_plain s) =
     (if startswith s ''json'' then py_strip (drop 4 s) else py_strip s)"
proof -
  have a: "startswith (fence_plain s) ''```json'' = startswith s ''json''"
    using startswith_json_fence [of s] by (simp add: fence_plain_def startswith_def)
  have b: "startswith (fence_plain s) ''```''" "endswith (fence_plain s) ''```''"
    by (simp_all add: fence_plain_def startswith_def endswith_def)
  have c: "py_slice (fence_plain s) 3 3 = s" "py_slice (fence_plain s) 7 3 = drop 4 s"
    by (simp_all add: fence_plain_def py_slice_def)
  show ?thesis
    by (simp add: strip_code_fence_def py_strip_fence_plain Let_def a b c)
qed

lemma strip_code_fence_unfenced: "\<not> fenced (py_strip t) \<Longrightarrow> strip_code_fence t = py_strip t"
  using startswith_append [of "py_strip t" "''```''" "''json''"]
  by (auto simp add: strip_code_fence_def fenced_def Let_def)

section \<open>Properties of the decoder\<close>

text \<open>Text that opens more arrays than there are levels left is refused at the last one.\<close>

lemma scan_value_too_deep:
  "2 * d + 1 \<le> n \<Longrightarrow>
   scan_value n d (replicate (Suc d) (CHR ''['') @ rest) = Inl (too_deep ''array'')"
proof (induction d arbitrary: n)
  case 0
  then obtain m where "n = Suc m" by (cases n) auto
  then show ?case by simp
next
  case (Suc d)
  then obtain m where n: "n = Suc (Suc m)" and m: "2 * d + 1 \<le> m"
    by (cases n; simp; rename_tac k; case_tac k; simp)
  have w: "skip_ws (replicate (Suc d) (CHR ''['') @ rest) = replicate (Suc d) (CHR ''['') @ rest"
    by (simp add: skip_ws_def json_ws_def)
  from Suc.IH [OF m]
  have "scan_value m d (replicate (Suc d) (CHR ''['') @ rest) = Inl (too_deep ''array'')" .
  then have "scan_items (Suc m) d (replicate (Suc d) (CHR ''['') @ rest) [] =
               Inl (too_deep ''array'')"
    by simp
  with w show ?case unfolding n by simp
qed

lemma loads_deep_request:
  "loads_fragment (replicate 1000 (CHR ''['')) = Inl (too_deep ''array'')"
proof -
  have "skip_ws (replicate k (CHR ''['')) = replicate k (CHR ''['')" for k
    by (cases k) (simp_all add: skip_ws_def json_ws_def)
  then have w: "skip_ws (replicate 1000 (CHR ''['')) = replicate 1000 (CHR ''['')" .
  have "scan_value 2002 994 (replicate (Suc 994) (CHR ''['') @ replicate 5 (CHR ''['')) =
          Inl (too_deep ''array'')"
    by (rule scan_value_too_deep) simp
  then have "scan_value 2002 994 (replicate 1000 (CHR ''['')) = Inl (too_deep ''array'')"
    by (simp add: replicate_add [symmetric])
  with w show ?thesis
    by (simp add: loads_fragment_def loads_bounded_def scanner_depth_def)
qed

section \<open>Properties of the steps\<close>

lemma extract_calls:
  "set (snd (extract_text_from_pdf_with_vision_ai w c)) \<subseteq> {PdfReader c, DocumentTextDetection c}"
  by (auto simp add: extract_text_from_pdf_with_vision_ai_def ret_def raise_def invoke_def
      bind_def split: sum.splits option.splits if_splits)

lemma parse_calls:
  "snd (parse_credit_report_with_gemini w t) = [GenerateContent (ParsePrompt t)]"
  by (auto simp add: parse_credit_report_with_gemini_def lift_def invoke_def bind_def
      split: sum.splits)

lemma detect_calls:
  "snd (detect_violations_with_gemini w p) = [GenerateContent (DetectPrompt p)]"
  by (auto simp add: detect_violations_with_gemini_def ret_def lift_def invoke_def bind_def
      split: sum.splits)

lemma generate_calls:
  "snd (generate_dispute_letter_with_gemini w p vs) = [GenerateContent (LetterPrompt p vs)]"
  by (simp add: generate_dispute_letter_with_gemini_def invoke_def)

lemma parse_result:
  "fst (parse_credit_report_with_gemini w t) =
     (case generate_content w (ParsePrompt t) of
        Inl e \<Rightarrow> Inl e
      | Inr text \<Rightarrow> decode_response (loads w) text)"
  by (simp add: parse_credit_report_with_gemini_def lift_def invoke_def bind_def
      split: sum.splits)

lemma detect_result:
  "fst (detect_violations_with_gemini w p) =
     (case generate_content w (DetectPrompt p) of
        Inl e \<Rightarrow> Inl e
      | Inr text \<Rightarrow>
          (case decode_response (loads w) text of
             Inl e \<Rightarrow> Inl e
           | Inr vs \<Rightarrow> (case py_len vs of Inl e \<Rightarrow> Inl e | Inr n \<Rightarrow> Inr vs)))"
  by (simp add: detect_violations_with_gemini_def ret_def lift_def invoke_def bind_def
      split: sum.splits)

lemma vision_error_raises:
  assumes "pdf_reader_pages w c = Inr (Suc n)" "document_text_detection w c = Inr r"
    and "error_message r \<noteq> []"
  shows "fst (extract_text_from_pdf_with_vision_ai w c) =
           Inl (Exception (''Vision AI error: '' @ error_message r))"
  using assms
  by (simp add: extract_text_from_pdf_with_vision_ai_def raise_def invoke_def bind_def)

lemma no_annotation_is_empty:
  assumes "pdf_reader_pages w c = Inr (Suc n)" "document_text_detection w c = Inr r"
    and "error_message r = []" "full_text_annotation r = None"
  shows "fst (extract_text_from_pdf_with_vision_ai w c) = Inr []"
  using assms
  by (simp add: extract_text_from_pdf_with_vision_ai_def ret_def invoke_def bind_def)

lemma bind_fst_snd:
  "bind m f =
     (case fst m of
        Inl e \<Rightarrow> (Inl e, snd m)
      | Inr x \<Rightarrow> (fst (f x), snd m @ snd (f x)))"
  by (simp add: bind_def split: prod.splits sum.splits)

lemma pipeline_unfold:
  "pipeline w url uid =
     (case requests_get w url of
        Inl e \<Rightarrow> (Inl e, [HttpGet url])
      | Inr resp \<Rightarrow>
     (case raise_for_status resp of
        Inl e \<Rightarrow> (Inl e, [HttpGet url])
      | Inr u \<Rightarrow>
     (case fst (extract_text_from_pdf_with_vision_ai w (content resp)) of
        Inl e \<Rightarrow> (Inl e, HttpGet url # snd (extract_text_from_pdf_with_vision_ai w (content resp)))
      | Inr text \<Rightarrow>
     if text = []
     then (Inl (ValueError ''Could not extract text from PDF.''),
           HttpGet url # snd (extract_text_from_pdf_with_vision_ai w (content resp)))
     else
     (case fst (parse_credit_report_with_gemini w text) of
        Inl e \<Rightarrow>
          (Inl e, HttpGet url # snd (extract_text_from_pdf_with_vision_ai w (content resp)) @
                  [GenerateContent (ParsePrompt text)])
      | Inr parsed \<Rightarrow>
     if \<not> truthy parsed
     then (Inl (ValueError ''Could not parse credit report data.''),
           HttpGet url # snd (extract_text_from_pdf_with_vision_ai w (content resp)) @
             [GenerateContent (ParsePrompt text)])
     else
     (case fst (detect_violations_with_gemini w parsed) of
        Inl e \<Rightarrow>
          (Inl e, HttpGet url # snd (extract_text_from_pdf_with_vision_ai w (content resp)) @
                  [GenerateContent (ParsePrompt text), GenerateContent (DetectPrompt parsed)])
      | Inr vs \<Rightarrow>
     (case py_get parsed ''personal_info'' (JObj []) of
        Inl e \<Rightarrow>
          (Inl e, HttpGet url # snd (extract_text_from_pdf_with_vision_ai w (content resp)) @
                  [GenerateContent (ParsePrompt text), GenerateContent (DetectPrompt parsed)])
      | Inr personal_info \<Rightarrow>
     (case fst (generate_dispute_letter_with_gemini w personal_info vs) of
        Inl e \<Rightarrow>
          (Inl e, HttpGet url # snd (extract_text_from_pdf_with_vision_ai w (content resp)) @
                  [GenerateContent (ParsePrompt text), GenerateContent (DetectPrompt parsed),
                   GenerateContent (LetterPrompt personal_info vs)])
      | Inr letter \<Rightarrow>
          (case insert_execute w
                  \<lparr>user_id = uid, pdf_url = url, extracted_text = text, parsed_data = parsed,
                     violations = vs, dispute_letter = letter, processed_at = now_isoformat w\<rparr> of
             Inl e \<Rightarrow> Inl e
           | Inr response_data \<Rightarrow> success_response response_data vs parsed,
           HttpGet url # snd (extract_text_from_pdf_with_vision_ai w (content resp)) @
             [GenerateContent (ParsePrompt text), GenerateContent (DetectPrompt parsed),
              GenerateContent (LetterPrompt personal_info vs),
              SupabaseInsert
                \<lparr>user_id = uid, pdf_url = url, extracted_text = text, parsed_data = parsed,
                   violations = vs, dispute_letter = letter,
                   processed_at = now_isoformat w\<rparr>]))))))))"
  unfolding pipeline_def bind_fst_snd
  by (simp add: invoke_def lift_def raise_def parse_calls detect_calls generate_calls
      split: sum.splits)

lemma raise_for_status_passes:
  "(raise_for_status r = Inr ()) = (\<not> (400 \<le> status_code r \<and> status_code r < 600))"
  by (simp add: raise_for_status_def)

lemma pipeline_insertD:
  assumes "pipeline w url uid = (out, cs)" "SupabaseInsert r \<in> set cs"
  shows "(\<exists>resp personal_info.
            requests_get w (pdf_url r) = Inr resp \<and>
            \<not> (400 \<le> status_code resp \<and> status_code resp < 600) \<and>
            fst (extract_text_from_pdf_with_vision_ai w (content resp)) =
              Inr (extracted_text r) \<and>
            extracted_text r \<noteq> [] \<and>
            fst (parse_credit_report_with_gemini w (extracted_text r)) =
              Inr (parsed_data r) \<and>
            truthy (parsed_data r) \<and>
            fst (detect_violations_with_gemini w (parsed_data r)) = Inr (violations r) \<and>
            py_get (parsed_data r) ''personal_info'' (JObj []) = Inr personal_info \<and>
            fst (generate_dispute_letter_with_gemini w personal_info (violations r)) =
              Inr (dispute_letter r)) \<and>
         pdf_url r = url \<and> user_id r = uid \<and>
         out = (case insert_execute w r of
                  Inl e \<Rightarrow> Inl e
                | Inr d \<Rightarrow> success_response d (violations r) (parsed_data r))"
proof -
  have n: "\<And>c. SupabaseInsert r \<notin> set (snd (extract_text_from_pdf_with_vision_ai w c))"
    using extract_calls by fastforce
  note a = assms [unfolded pipeline_unfold]
  from a obtain resp where r: "requests_get w url = Inr resp"
    by (cases "requests_get w url") auto
  from a r have s: "raise_for_status resp = Inr ()"
    by (cases "raise_for_status resp") auto
  from a r s n obtain tx
    where x: "fst (extract_text_from_pdf_with_vision_ai w (content resp)) = Inr tx"
    by (cases "fst (extract_text_from_pdf_with_vision_ai w (content resp))") auto
  from a r s x n have xn: "tx \<noteq> []"
    by (cases "tx = []") auto
  from a r s x xn n obtain parsed
    where p: "fst (parse_credit_report_with_gemini w tx) = Inr parsed"
    by (cases "fst (parse_credit_report_with_gemini w tx)") auto
  from a r s x xn p n have pt: "truthy parsed"
    by (cases "truthy parsed") auto
  from a r s x xn p pt n obtain vs
    where d: "fst (detect_violations_with_gemini w parsed) = Inr vs"
    by (cases "fst (detect_violations_with_gemini w parsed)") auto
  from a r s x xn p pt d n obtain personal_info
    where q: "py_get parsed ''personal_info'' (JObj []) = Inr personal_info"
    by (cases "py_get parsed ''personal_info'' (JObj [])") auto
  from a r s x xn p pt d q n obtain letter
    where g: "fst (generate_dispute_letter_with_gemini w personal_info vs) = Inr letter"
    by (cases "fst (generate_dispute_letter_with_gemini w personal_info vs)") auto
  from a r s x xn p pt d q g n
  have e: "r = \<lparr>user_id = uid, pdf_url = url, extracted_text = tx, parsed_data = parsed,
                violations = vs, dispute_letter = letter, processed_at = now_isoformat w\<rparr>"
    and o: "out = (case insert_execute w
                       \<lparr>user_id = uid, pdf_url = url, extracted_text = tx,
                          parsed_data = parsed, violations = vs, dispute_letter = letter,
                          processed_at = now_isoformat w\<rparr> of
                     Inl e \<Rightarrow> Inl e
                   | Inr d \<Rightarrow> success_response d vs parsed)"
    by auto
  from s raise_for_status_passes [of resp]
  have "\<not> (400 \<le> status_code resp \<and> status_code resp < 600)"
    by blast
  with r x xn p pt d q g have "(\<exists>resp personal_info.
            requests_get w (pdf_url r) = Inr resp \<and>
            \<not> (400 \<le> status_code resp \<and> status_code resp < 600) \<and>
            fst (extract_text_from_pdf_with_vision_ai w (content resp)) =
              Inr (extracted_text r) \<and>
            extracted_text r \<noteq> [] \<and>
            fst (parse_credit_report_with_gemini w (extracted_text r)) =
              Inr (parsed_data r) \<and>
            truthy (parsed_data r) \<and>
            fst (detect_violations_with_gemini w (parsed_data r)) = Inr (violations r) \<and>
            py_get (parsed_data r) ''personal_info'' (JObj []) = Inr personal_info \<and>
            fst (generate_dispute_letter_with_gemini w personal_info (violations r)) =
              Inr (dispute_letter r))"
    unfolding e by simp
  with o show ?thesis unfolding e by (simp split: sum.splits)
qed


lemma process_accepted:
  assumes "accepted w req url uid"
  shows "process_credit_report w req =
     (case pipeline w url uid of
        (Inl e, cs) \<Rightarrow> (Response (error_body (str_exn e)) 500, cs)
      | (Inr body, cs) \<Rightarrow> (Response body 200, cs))"
  using assms by (auto simp add: process_credit_report_def accepted_def split: sum.splits)

lemma process_cases:
  "(\<exists>e. process_credit_report w req = (Unhandled e, [])) \<or>
   process_credit_report w req =
     (Response (error_body ''Missing pdf_url or user_id'') 400, []) \<or>
   (\<exists>url uid. accepted w req url uid)"
  by (auto simp add: process_credit_report_def accepted_def Let_def split: sum.splits)

text \<open>
  On a body that is a JSON object the check of line 300 rejects every request with a
  field that is missing or falsy, before any collaborator is called.
\<close>

lemma object_body_missing_field:
  assumes "get_json_silent w req = Inr (JObj kvs)"
    and "(case map_of kvs ''pdf_url'' of None \<Rightarrow> True | Some v \<Rightarrow> \<not> truthy v) \<or>
         (case map_of kvs ''user_id'' of None \<Rightarrow> True | Some v \<Rightarrow> \<not> truthy v)"
  shows "process_credit_report w req =
           (Response (error_body ''Missing pdf_url or user_id'') 400, [])"
proof -
  have f: "\<And>k. read_field (JObj kvs) k =
             Inr (case map_of kvs k of None \<Rightarrow> JNull | Some v \<Rightarrow> v)"
  proof -
    fix k
    show "read_field (JObj kvs) k = Inr (case map_of kvs k of None \<Rightarrow> JNull | Some v \<Rightarrow> v)"
    proof (cases "map_of kvs k")
      case None
      then have "k \<notin> set (map fst kvs)" by (simp add: map_of_eq_None_iff)
      with None show ?thesis by (simp add: read_field_def)
    next
      case (Some v)
      then have "k \<in> set (map fst kvs)" by (metis map_of_eq_None_iff option.distinct(1) set_map)
      moreover from this have "kvs \<noteq> []" by auto
      ultimately show ?thesis using Some by (simp add: read_field_def)
    qed
  qed
  from assms(2) show ?thesis
    by (auto simp add: process_credit_report_def assms(1) f split: option.splits)
qed

section \<open>Request validation\<close>

text \<open>
  C1. A request body in which \<^verbatim>\<open>pdf_url\<close> or \<^verbatim>\<open>user_id\<close> is missing should be answered
  with status 400 and no collaborator call. The JSON body \<^verbatim>\<open>5\<close> has neither field, and
  on it the membership test of line 295 raises \<^verbatim>\<open>TypeError\<close> outside the \<^verbatim>\<open>try\<close>: the
  function returns no response of its own. (For bodies that are JSON objects the rejection
  is \<open>object_body_missing_field\<close>.)
\<close>

theorem scalar_body_escapes_validation:
  "process_credit_report sample_world \<lparr>is_json = True, data = ''5''\<rparr> =
     (Unhandled (TypeError ''argument of type 'int' is not iterable''), [])"
  by code_simp

theorem scalar_body_escapes_validation_witness:
  "fst (process_credit_report sample_world \<lparr>is_json = True, data = ''5''\<rparr>) \<noteq>
     Response (error_body ''Missing pdf_url or user_id'') 400 \<and>
   loads sample_world ''5'' = Inr (JInt 5)"
proof -
  have "loads sample_world ''5'' = Inr (JInt 5)" by code_simp
  with scalar_body_escapes_validation show ?thesis by simp
qed

text \<open>
  C10, as stated: a request whose body is not valid JSON never causes an unhandled error.
  \<^verbatim>\<open>get_json(silent=True)\<close> silences \<^verbatim>\<open>ValueError\<close> only. A body of 1000 opening
  brackets is not valid JSON, the decoder raises \<^verbatim>\<open>RecursionError\<close> on it, and the
  exception leaves line 288, which stands outside the \<^verbatim>\<open>try\<close>.
\<close>

theorem deep_body_counterexample:
  "loads sample_world (data deep_request) = Inl (Other ''RecursionError'' ''maximum recursion depth exceeded while decoding a JSON array from a unicode string'') \<and>
   \<not> is_value_error (Other ''RecursionError'' ''maximum recursion depth exceeded while decoding a JSON array from a unicode string'') \<and>
   process_credit_report sample_world deep_request =
     (Unhandled (Other ''RecursionError'' ''maximum recursion depth exceeded while decoding a JSON array from a unicode string''), [])"
  using loads_deep_request
  by (simp add: process_credit_report_def get_json_silent_def sample_world_def
      deep_request_def too_deep_def)

text \<open>
  C10, amended: for every request whose content type is not JSON, or whose body makes the
  decoder raise a \<^verbatim>\<open>ValueError\<close> (as \<^verbatim>\<open>JSONDecodeError\<close> is, on an absent or
  malformed body), the response is status 400 with the body
  \<^verbatim>\<open>{"status": "error", "message": "Missing pdf_url or user_id"}\<close>, and no collaborator
  is called.
\<close>

theorem malformed_body_rejected:
  assumes "\<not> is_json req \<or> (loads w (data req) = Inl e \<and> is_value_error e)"
  shows "process_credit_report w req =
           (Response
              (JObj [(''status'', JStr ''error''),
                     (''message'', JStr ''Missing pdf_url or user_id'')]) 400, [])"
proof -
  from assms have "get_json_silent w req = Inr JNull"
    by (auto simp add: get_json_silent_def)
  then show ?thesis
    by (simp add: process_credit_report_def read_field_def error_body_def)
qed

theorem malformed_body_rejected_witness:
  "loads sample_world (data \<lparr>is_json = True, data = []\<rparr>) =
     Inl (Other ''JSONDecodeError'' ''Expecting value'') \<and>
   is_value_error (Other ''JSONDecodeError'' ''Expecting value'') \<and>
   process_credit_report sample_world \<lparr>is_json = True, data = []\<rparr> =
     (Response
        (JObj [(''status'', JStr ''error''),
               (''message'', JStr ''Missing pdf_url or user_id'')]) 400, []) \<and>
   loads sample_world (data \<lparr>is_json = True, data = ''{pdf_url''\<rparr>) =
     Inl (Other ''JSONDecodeError'' ''Expecting value'') \<and>
   process_credit_report sample_world \<lparr>is_json = True, data = ''{pdf_url''\<rparr> =
     (Response
        (JObj [(''status'', JStr ''error''),
               (''message'', JStr ''Missing pdf_url or user_id'')]) 400, []) \<and>
   \<not> is_json \<lparr>is_json = False, data = []\<rparr> \<and>
   process_credit_report sample_world \<lparr>is_json = False, data = []\<rparr> =
     (Response
        (JObj [(''status'', JStr ''error''),
               (''message'', JStr ''Missing pdf_url or user_id'')]) 400, [])"
proof -
  have h0: "loads sample_world (data \<lparr>is_json = True, data = []\<rparr>) =
              Inl (Other ''JSONDecodeError'' ''Expecting value'')"
    by code_simp
  have h1: "loads sample_world (data \<lparr>is_json = True, data = ''{pdf_url''\<rparr>) =
              Inl (Other ''JSONDecodeError'' ''Expecting value'')"
    by code_simp
  have v: "is_value_error (Other ''JSONDecodeError'' ''Expecting value'')" by simp
  have h2: "\<not> is_json \<lparr>is_json = False, data = []\<rparr>" by simp
  note c0 = malformed_body_rejected [OF disjI2, OF conjI, OF h0 v]
  note c1 = malformed_body_rejected [OF disjI2, OF conjI, OF h1 v]
  note c2 = malformed_body_rejected [OF disjI1, OF h2, of sample_world]
  from h0 h1 v h2 c0 c1 c2 show ?thesis by blast
qed

section \<open>Fence stripping\<close>

text \<open>
  C3, as stated: for every string \<open>s\<close>, a response that wraps \<open>s\<close> in a fence decodes to
  what \<open>s\<close> decodes to. It fails when \<open>s\<close> is itself fenced, since one layer only is
  removed, and for the plain fence when \<open>s\<close> begins with \<^verbatim>\<open>json\<close>, since the fence is then
  read as one with the language tag.
\<close>

theorem fence_roundtrip_counterexample:
  "decode_response loads_fragment (fence_json ''```[]```'') =
     Inl (Other ''JSONDecodeError'' ''Expecting value'') \<and>
   decode_response loads_fragment ''```[]```'' = Inr (JArr []) \<and>
   decode_response loads_fragment (fence_plain ''json[]'') = Inr (JArr []) \<and>
   decode_response loads_fragment ''json[]'' =
     Inl (Other ''JSONDecodeError'' ''Expecting value'')"
  by code_simp

text \<open>
  C3, amended: for every decoder and every string \<open>s\<close> that is not itself fenced once
  stripped of white space, the response with \<open>s\<close> in a \<^verbatim>\<open>```json\<close> fence decodes to what
  \<open>s\<close> decodes to; so does the response with \<open>s\<close> in a plain fence, provided \<open>s\<close> does not
  begin with \<^verbatim>\<open>json\<close>; and stripping such an \<open>s\<close> twice is stripping it once.
\<close>

theorem fence_roundtrip:
  assumes "\<not> fenced (py_strip s)"
  shows "decode_response decoder (fence_json s) = decode_response decoder s \<and>
         (\<not> startswith s ''json'' \<longrightarrow>
            decode_response decoder (fence_plain s) = decode_response decoder s) \<and>
         strip_code_fence (strip_code_fence s) = strip_code_fence s"
proof -
  from assms have u: "strip_code_fence s = py_strip s"
    by (rule strip_code_fence_unfenced)
  from assms have "\<not> fenced (py_strip (py_strip s))" by (simp add: py_strip_idem)
  then have "strip_code_fence (py_strip s) = py_strip (py_strip s)"
    by (rule strip_code_fence_unfenced)
  with u have i: "strip_code_fence (strip_code_fence s) = strip_code_fence s"
    by (simp add: py_strip_idem)
  from u i show ?thesis
    by (simp add: decode_response_def strip_code_fence_fence_json strip_code_fence_fence_plain)
qed

theorem fence_roundtrip_witness:
  "\<not> fenced (py_strip '' [1, 2] '') \<and> \<not> startswith '' [1, 2] '' ''json'' \<and>
   decode_response loads_fragment (fence_json '' [1, 2] '') =
     decode_response loads_fragment '' [1, 2] '' \<and>
   decode_response loads_fragment (fence_plain '' [1, 2] '') =
     decode_response loads_fragment '' [1, 2] '' \<and>
   strip_code_fence (strip_code_fence '' [1, 2] '') = strip_code_fence '' [1, 2] ''"
proof -
  have h1: "\<not> fenced (py_strip '' [1, 2] '')" by code_simp
  have h2: "\<not> startswith '' [1, 2] '' ''json''" by code_simp
  from fence_roundtrip [OF h1, of loads_fragment] h1 h2 show ?thesis by blast
qed

section \<open>Failures of the early steps\<close>

text \<open>
  C4, as stated: a fetch with a non-2xx status ends the run with status 500 before any
  later step. \<^verbatim>\<open>raise_for_status\<close> raises for 4xx and 5xx only, so a response with status
  300 passes line 310 and the run goes on to the store and to status 200.
\<close>

theorem non_2xx_fetch_counterexample:
  "requests_get multiple_choices_world sample_url =
     Inr \<lparr>status_code = 300, http_error_msg = [], content = ''%PDF-1.4''\<rparr> \<and>
   process_credit_report multiple_choices_world sample_request =
     (Response (success_body sample_stored (summary 1 1 0)) 200,
      full_trace sample_parsed sample_personal_info sample_violations ''Dear Bureau'')"
  by code_simp

text \<open>
  C4, amended: for every accepted request in which the fetch raises (a timeout, a
  connection failure) or returns a response with a 4xx or 5xx status, the response is
  status 500 with the message of the failure, and the fetch is the only collaborator call.
\<close>

theorem fetch_failure_aborts:
  assumes "accepted w req url uid"
    and "requests_get w url = Inl e \<or>
         (requests_get w url = Inr r \<and> 400 \<le> status_code r \<and> status_code r < 600 \<and>
          e = HTTPError (http_error_msg r))"
  shows "process_credit_report w req =
           (Response (error_body (str_exn e)) 500, [HttpGet url])"
  using assms(2)
  by (auto simp add: process_accepted [OF assms(1)] pipeline_unfold raise_for_status_def)

theorem fetch_failure_aborts_witness:
  "accepted timeout_world sample_request sample_url sample_uid \<and>
   requests_get timeout_world sample_url = Inl (Other ''Timeout'' ''Read timed out.'') \<and>
   process_credit_report timeout_world sample_request =
     (Response (error_body (str_exn (Other ''Timeout'' ''Read timed out.''))) 500,
      [HttpGet sample_url]) \<and>
   accepted not_found_world sample_request sample_url sample_uid \<and>
   requests_get not_found_world sample_url =
     Inr \<lparr>status_code = 404, http_error_msg = ''404 Client Error: Not Found'',
          content = []\<rparr> \<and>
   process_credit_report not_found_world sample_request =
     (Response (error_body (str_exn (HTTPError ''404 Client Error: Not Found''))) 500,
      [HttpGet sample_url])"
proof -
  have a1: "accepted timeout_world sample_request sample_url sample_uid" by code_simp
  have g1: "requests_get timeout_world sample_url = Inl (Other ''Timeout'' ''Read timed out.'')"
    by code_simp
  have a2: "accepted not_found_world sample_request sample_url sample_uid" by code_simp
  have g2: "requests_get not_found_world sample_url =
              Inr \<lparr>status_code = 404, http_error_msg = ''404 Client Error: Not Found'',
                   content = []\<rparr>"
    by code_simp
  have c1: "process_credit_report timeout_world sample_request =
     (Response (error_body (str_exn (Other ''Timeout'' ''Read timed out.''))) 500,
      [HttpGet sample_url])"
    by (rule fetch_failure_aborts [OF a1 disjI1, OF g1])
  have c2: "process_credit_report not_found_world sample_request =
     (Response (error_body (str_exn (HTTPError ''404 Client Error: Not Found''))) 500,
      [HttpGet sample_url])"
    by (rule fetch_failure_aborts [OF a2 disjI2, where r = "\<lparr>status_code = 404,
          http_error_msg = ''404 Client Error: Not Found'', content = []\<rparr>"])
       (simp add: g2)
  from a1 g1 c1 a2 g2 c2 show ?thesis by blast
qed

text \<open>
  C5. For every accepted request whose document is fetched, if the text extraction returns
  the empty string or raises (as it does when Vision AI reports an error), the response is
  status 500 and the only calls are the fetch and those of the extraction: the structuring
  step is not called and nothing is stored.
\<close>

theorem empty_extraction_fails:
  assumes "accepted w req url uid" and "fetched w url pdf_content"
    and "fst (extract_text_from_pdf_with_vision_ai w pdf_content) = Inr [] \<or>
         fst (extract_text_from_pdf_with_vision_ai w pdf_content) = Inl e"
  shows "\<exists>msg cs. process_credit_report w req = (Response (error_body msg) 500, cs) \<and>
           set cs \<subseteq> {HttpGet url, PdfReader pdf_content, DocumentTextDetection pdf_content}"
proof -
  from assms(2) obtain resp where r: "requests_get w url = Inr resp"
    "raise_for_status resp = Inr ()" "content resp = pdf_content"
    by (auto simp add: fetched_def split: sum.splits)
  let ?cs = "HttpGet url # snd (extract_text_from_pdf_with_vision_ai w pdf_content)"
  from assms(3) r have "\<exists>msg. process_credit_report w req = (Response (error_body msg) 500, ?cs)"
    by (auto simp add: process_accepted [OF assms(1)] pipeline_unfold)
  moreover have "set ?cs \<subseteq> {HttpGet url, PdfReader pdf_content, DocumentTextDetection pdf_content}"
    using extract_calls [of w pdf_content] by auto
  ultimately show ?thesis by blast
qed

theorem empty_extraction_fails_witness:
  "accepted no_annotation_world sample_request sample_url sample_uid \<and>
   fetched no_annotation_world sample_url ''%PDF-1.4'' \<and>
   fst (extract_text_from_pdf_with_vision_ai no_annotation_world ''%PDF-1.4'') = Inr [] \<and>
   (\<exists>msg cs. process_credit_report no_annotation_world sample_request =
       (Response (error_body msg) 500, cs) \<and>
     set cs \<subseteq> {HttpGet sample_url, PdfReader ''%PDF-1.4'', DocumentTextDetection ''%PDF-1.4''}) \<and>
   accepted vision_error_world sample_request sample_url sample_uid \<and>
   fetched vision_error_world sample_url ''%PDF-1.4'' \<and>
   fst (extract_text_from_pdf_with_vision_ai vision_error_world ''%PDF-1.4'') =
     Inl (Exception ''Vision AI error: Bad image data.'') \<and>
   (\<exists>msg cs. process_credit_report vision_error_world sample_request =
       (Response (error_body msg) 500, cs) \<and>
     set cs \<subseteq> {HttpGet sample_url, PdfReader ''%PDF-1.4'', DocumentTextDetection ''%PDF-1.4''})"
proof -
  have a1: "accepted no_annotation_world sample_request sample_url sample_uid" by code_simp
  have f1: "fetched no_annotation_world sample_url ''%PDF-1.4''" by code_simp
  have x1: "fst (extract_text_from_pdf_with_vision_ai no_annotation_world ''%PDF-1.4'') = Inr []"
    by code_simp
  have a2: "accepted vision_error_world sample_request sample_url sample_uid" by code_simp
  have f2: "fetched vision_error_world sample_url ''%PDF-1.4''" by code_simp
  have x2: "fst (extract_text_from_pdf_with_vision_ai vision_error_world ''%PDF-1.4'') =
              Inl (Exception ''Vision AI error: Bad image data.'')"
    by code_simp
  note c1 = empty_extraction_fails [OF a1 f1 disjI1, OF x1]
  note c2 = empty_extraction_fails [OF a2 f2 disjI2, OF x2]
  from a1 f1 x1 c1 a2 f2 x2 c2 show ?thesis by blast
qed

text \<open>
  C6. For every accepted request that reaches the structuring step, if the response of the
  model, once the fence is stripped, does not decode, or decodes to a falsy value, the
  response is status 500 and the run ends after that call: nothing is detected, drafted or
  stored. The empty response is the first case, as the decoder rejects the empty text.
\<close>

theorem unusable_structure_fails:
  assumes "accepted w req url uid" and "fetched w url pdf_content"
    and "extracted w pdf_content text"
    and "generate_content w (ParsePrompt text) = Inr t"
    and "decode_response (loads w) t = Inl e \<or>
         (decode_response (loads w) t = Inr v \<and> \<not> truthy v \<and>
          e = ValueError ''Could not parse credit report data.'')"
  shows "process_credit_report w req =
           (Response (error_body (str_exn e)) 500,
            HttpGet url # snd (extract_text_from_pdf_with_vision_ai w pdf_content) @
              [GenerateContent (ParsePrompt text)])"
proof -
  from assms(2) obtain resp where r: "requests_get w url = Inr resp"
    "raise_for_status resp = Inr ()" "content resp = pdf_content"
    by (auto simp add: fetched_def split: sum.splits)
  from assms(3) have x: "fst (extract_text_from_pdf_with_vision_ai w pdf_content) = Inr text"
    "text \<noteq> []"
    by (simp_all add: extracted_def)
  from assms(4) have p: "fst (parse_credit_report_with_gemini w text) = decode_response (loads w) t"
    by (simp add: parse_result)
  from assms(5) show ?thesis
    by (auto simp add: process_accepted [OF assms(1)] pipeline_unfold r x p)
qed

theorem unusable_structure_fails_witness:
  "accepted empty_structure_world sample_request sample_url sample_uid \<and>
   fetched empty_structure_world sample_url ''%PDF-1.4'' \<and>
   extracted empty_structure_world ''%PDF-1.4'' sample_text \<and>
   generate_content empty_structure_world (ParsePrompt sample_text) = Inr [] \<and>
   decode_response (loads empty_structure_world) [] =
     Inl (Other ''JSONDecodeError'' ''Expecting value'') \<and>
   process_credit_report empty_structure_world sample_request =
     (Response (error_body (str_exn (Other ''JSONDecodeError'' ''Expecting value''))) 500,
      HttpGet sample_url #
        snd (extract_text_from_pdf_with_vision_ai empty_structure_world ''%PDF-1.4'') @
        [GenerateContent (ParsePrompt sample_text)]) \<and>
   accepted falsy_structure_world sample_request sample_url sample_uid \<and>
   fetched falsy_structure_world sample_url ''%PDF-1.4'' \<and>
   extracted falsy_structure_world ''%PDF-1.4'' sample_text \<and>
   generate_content falsy_structure_world (ParsePrompt sample_text) = Inr ''```json {} ```'' \<and>
   decode_response (loads falsy_structure_world) ''```json {} ```'' = Inr (JObj []) \<and>
   \<not> truthy (JObj []) \<and>
   process_credit_report falsy_structure_world sample_request =
     (Response (error_body (str_exn (ValueError ''Could not parse credit report data.''))) 500,
      HttpGet sample_url #
        snd (extract_text_from_pdf_with_vision_ai falsy_structure_world ''%PDF-1.4'') @
        [GenerateContent (ParsePrompt sample_text)])"
proof -
  have a1: "accepted empty_structure_world sample_request sample_url sample_uid" by code_simp
  have f1: "fetched empty_structure_world sample_url ''%PDF-1.4''" by code_simp
  have x1: "extracted empty_structure_world ''%PDF-1.4'' sample_text" by code_simp
  have g1: "generate_content empty_structure_world (ParsePrompt sample_text) = Inr []"
    by code_simp
  have d1: "decode_response (loads empty_structure_world) [] =
              Inl (Other ''JSONDecodeError'' ''Expecting value'')"
    by code_simp
  have a2: "accepted falsy_structure_world sample_request sample_url sample_uid" by code_simp
  have f2: "fetched falsy_structure_world sample_url ''%PDF-1.4''" by code_simp
  have x2: "extracted falsy_structure_world ''%PDF-1.4'' sample_text" by code_simp
  have g2: "generate_content falsy_structure_world (ParsePrompt sample_text) =
              Inr ''```json {} ```''"
    by code_simp
  have d2: "decode_response (loads falsy_structure_world) ''```json {} ```'' = Inr (JObj [])"
    by code_simp
  have t2: "\<not> truthy (JObj [])" by simp
  note c1 = unusable_structure_fails [OF a1 f1 x1 g1 disjI1, OF d1]
  have c2: "process_credit_report falsy_structure_world sample_request =
     (Response (error_body (str_exn (ValueError ''Could not parse credit report data.''))) 500,
      HttpGet sample_url #
        snd (extract_text_from_pdf_with_vision_ai falsy_structure_world ''%PDF-1.4'') @
        [GenerateContent (ParsePrompt sample_text)])"
    by (rule unusable_structure_fails [OF a2 f2 x2 g2 disjI2, where v = "JObj []"])
       (simp add: d2)
  from a1 f1 x1 g1 d1 c1 a2 f2 x2 g2 d2 t2 c2 show ?thesis by blast
qed

section \<open>Runs that reach the store\<close>

lemma process_pipelineD:
  assumes "process_credit_report w req = (out, cs)" and "cs \<noteq> [] \<or> (\<exists>b. out = Response b 200)"
  shows "\<exists>url uid res. pipeline w url uid = (res, cs) \<and>
           out = (case res of
                    Inl e \<Rightarrow> Response (error_body (str_exn e)) 500
                  | Inr body \<Rightarrow> Response body 200)"
proof -
  from assms process_cases [of w req] obtain url uid where a: "accepted w req url uid"
    by auto
  obtain res cs' where p: "pipeline w url uid = (res, cs')"
    by (cases "pipeline w url uid")
  from assms(1) have "cs' = cs \<and>
      out = (case res of
               Inl e \<Rightarrow> Response (error_body (str_exn e)) 500
             | Inr body \<Rightarrow> Response body 200)"
    by (cases res) (auto simp add: process_accepted [OF a] p)
  with p show ?thesis by blast
qed

lemma py_get_entry:
  "py_get parsed k0 d0 = Inr x \<Longrightarrow> py_get parsed k (JArr []) = Inr (entry_or_empty parsed k)"
  by (cases parsed) (auto simp add: entry_or_empty_def split: option.splits)


lemma success_responseI:
  assumes "py_len vs = Inr nv" and "py_get parsed k0 d0 = Inr x"
    and "py_len (entry_or_empty parsed ''accounts'') = Inr na"
    and "py_len (entry_or_empty parsed ''inquiries'') = Inr ni"
  shows "success_response d vs parsed = Inr (success_body d (summary nv na ni))"
  using assms(1,3,4) py_get_entry [OF assms(2)]
  by (simp add: success_response_def)

text \<open>The letter in a stored record is the text that the letter step returned.\<close>

lemma stored_letter_is_drafted:
  assumes "process_credit_report w req = (out, cs)" and "SupabaseInsert r \<in> set cs"
  shows "drafted w (parsed_data r) (violations r) (dispute_letter r)"
proof -
  from assms(2) have "cs \<noteq> []" by auto
  with assms(1) obtain url uid res where "pipeline w url uid = (res, cs)"
    using process_pipelineD by blast
  from pipeline_insertD [OF this assms(2)] show ?thesis
    by (auto simp add: drafted_def)
qed

text \<open>A failure of the letter step ends the run with status 500 and nothing is stored.\<close>

lemma draft_failure_aborts:
  assumes "accepted w req url uid" and "fetched w url pdf_content"
    and "extracted w pdf_content text" and "structured w text parsed"
    and "detected w parsed vs"
    and "py_get parsed ''personal_info'' (JObj []) = Inr personal_info"
    and "generate_content w (LetterPrompt personal_info vs) = Inl e"
  shows "process_credit_report w req =
           (Response (error_body (str_exn e)) 500,
            HttpGet url # snd (extract_text_from_pdf_with_vision_ai w pdf_content) @
              [GenerateContent (ParsePrompt text), GenerateContent (DetectPrompt parsed),
               GenerateContent (LetterPrompt personal_info vs)])"
proof -
  from assms(2) obtain resp where r: "requests_get w url = Inr resp"
    "raise_for_status resp = Inr ()" "content resp = pdf_content"
    by (auto simp add: fetched_def split: sum.splits)
  from assms(3) have x: "fst (extract_text_from_pdf_with_vision_ai w pdf_content) = Inr text"
    "text \<noteq> []"
    by (simp_all add: extracted_def)
  from assms(4) have p: "fst (parse_credit_report_with_gemini w text) = Inr parsed"
    "truthy parsed"
    by (simp_all add: structured_def)
  from assms(5) have d: "fst (detect_violations_with_gemini w parsed) = Inr vs"
    by (simp add: detected_def)
  from assms(7) have g: "fst (generate_dispute_letter_with_gemini w personal_info vs) = Inl e"
    by (simp add: generate_dispute_letter_with_gemini_def invoke_def)
  show ?thesis
    by (simp add: process_accepted [OF assms(1)] pipeline_unfold r x p d g assms(6))
qed

text \<open>
  C2, as stated: a record is written only in runs in which every upstream step has
  succeeded. In the words of the specification a fetch succeeds on a 2xx status and a
  draft fails when it is empty; the entry point writes the record after a fetch with
  status 300 and after an empty letter.
\<close>

theorem partial_record_counterexample:
  "SupabaseInsert (sample_record sample_parsed sample_violations ''Dear Bureau'') \<in>
     set (snd (process_credit_report multiple_choices_world sample_request)) \<and>
   \<not> upstream_succeeded multiple_choices_world
       (sample_record sample_parsed sample_violations ''Dear Bureau'') \<and>
   SupabaseInsert (sample_record sample_parsed sample_violations []) \<in>
     set (snd (process_credit_report empty_letter_world sample_request)) \<and>
   \<not> upstream_succeeded empty_letter_world
       (sample_record sample_parsed sample_violations [])"
  by code_simp

text \<open>
  C2, amended: a record is handed to the store only in a run in which the fetch returned a
  response whose status is neither 4xx nor 5xx, the extraction returned non-empty text,
  the structuring step returned a truthy document, the detection step returned a value
  with a length and the letter step returned, each field of the record being the result
  of its step; and when the write of that record raises, the response is status 500 with
  the body \<^verbatim>\<open>{"status": "error", "message": <the text of the exception>}\<close>.
\<close>

theorem persistence_all_or_nothing:
  assumes "process_credit_report w req = (out, cs)" and "SupabaseInsert r \<in> set cs"
  shows "(\<exists>resp personal_info.
            requests_get w (pdf_url r) = Inr resp \<and>
            \<not> (400 \<le> status_code resp \<and> status_code resp < 600) \<and>
            fst (extract_text_from_pdf_with_vision_ai w (content resp)) =
              Inr (extracted_text r) \<and>
            extracted_text r \<noteq> [] \<and>
            fst (parse_credit_report_with_gemini w (extracted_text r)) =
              Inr (parsed_data r) \<and>
            truthy (parsed_data r) \<and>
            fst (detect_violations_with_gemini w (parsed_data r)) = Inr (violations r) \<and>
            py_get (parsed_data r) ''personal_info'' (JObj []) = Inr personal_info \<and>
            fst (generate_dispute_letter_with_gemini w personal_info (violations r)) =
              Inr (dispute_letter r)) \<and>
         (insert_execute w r = Inl e \<longrightarrow>
            out = Response
                    (JObj [(''status'', JStr ''error''), (''message'', JStr (str_exn e))])
                    500)"
proof -
  from assms(2) have "cs \<noteq> []" by auto
  with assms(1) obtain url uid res where p: "pipeline w url uid = (res, cs)"
    and o: "out = (case res of
                     Inl e \<Rightarrow> Response (error_body (str_exn e)) 500
                   | Inr body \<Rightarrow> Response body 200)"
    using process_pipelineD by blast
  from pipeline_insertD [OF p assms(2)] o show ?thesis
    by (auto simp add: error_body_def)
qed

theorem persistence_all_or_nothing_witness:
  "process_credit_report insert_fails_world sample_request =
     (Response
        (JObj [(''status'', JStr ''error''),
               (''message'', JStr ''permission denied for table credit_reports_analysis'')])
        500,
      full_trace sample_parsed sample_personal_info sample_violations ''Dear Bureau'') \<and>
   SupabaseInsert stored_record \<in>
     set (full_trace sample_parsed sample_personal_info sample_violations ''Dear Bureau'') \<and>
   insert_execute insert_fails_world stored_record =
     Inl (Other ''APIError'' ''permission denied for table credit_reports_analysis'') \<and>
   (\<exists>resp personal_info.
      requests_get insert_fails_world (pdf_url stored_record) = Inr resp \<and>
      \<not> (400 \<le> status_code resp \<and> status_code resp < 600) \<and>
      fst (extract_text_from_pdf_with_vision_ai insert_fails_world (content resp)) =
        Inr (extracted_text stored_record) \<and>
      extracted_text stored_record \<noteq> [] \<and>
      fst (parse_credit_report_with_gemini insert_fails_world (extracted_text stored_record)) =
        Inr (parsed_data stored_record) \<and>
      truthy (parsed_data stored_record) \<and>
      fst (detect_violations_with_gemini insert_fails_world (parsed_data stored_record)) =
        Inr (violations stored_record) \<and>
      py_get (parsed_data stored_record) ''personal_info'' (JObj []) = Inr personal_info \<and>
      fst (generate_dispute_letter_with_gemini insert_fails_world personal_info
             (violations stored_record)) =
        Inr (dispute_letter stored_record))"
proof -
  have p: "process_credit_report insert_fails_world sample_request =
     (Response
        (JObj [(''status'', JStr ''error''),
               (''message'', JStr ''permission denied for table credit_reports_analysis'')])
        500,
      full_trace sample_parsed sample_personal_info sample_violations ''Dear Bureau'')"
    by code_simp
  have m: "SupabaseInsert stored_record \<in>
     set (full_trace sample_parsed sample_personal_info sample_violations ''Dear Bureau'')"
    by (simp add: full_trace_def stored_record_def)
  have i: "insert_execute insert_fails_world stored_record =
     Inl (Other ''APIError'' ''permission denied for table credit_reports_analysis'')"
    by code_simp
  from persistence_all_or_nothing [OF p m] p m i show ?thesis by blast
qed

text \<open>
  C7, as stated: whenever the detection response is the empty array, the response is
  status 200. With a structured report whose entry \<^verbatim>\<open>accounts\<close> is \<^verbatim>\<open>null\<close>, every
  collaborator returns and the record is stored, but \<^verbatim>\<open>len(None)\<close> at line 361 raises
  and the response is status 500.
\<close>

theorem null_accounts_counterexample:
  "generate_content null_accounts_world (DetectPrompt null_accounts_parsed) = Inr ''[]'' \<and>
   process_credit_report null_accounts_world sample_request =
     (Response
        (JObj [(''status'', JStr ''error''),
               (''message'', JStr ''object of type 'NoneType' has no len()'')]) 500,
      full_trace null_accounts_parsed sample_personal_info (JArr []) ''Dear Bureau'')"
  by code_simp

text \<open>
  C7, amended: for every accepted request that reaches the detection step with a structured
  report that is a JSON object, if the detection response decodes to the empty array, the
  letter step is called with that empty array; and when moreover the letter step and the
  store return and the entries \<^verbatim>\<open>accounts\<close> and \<^verbatim>\<open>inquiries\<close> of the report, where
  present, have a length, the record is stored after the letter call and the response is
  status 200 with the summary
  \<^verbatim>\<open>{"violations_found": 0, "accounts_analyzed": na, "inquiries_found": ni}\<close>.
\<close>

theorem empty_detection_continues:
  assumes "accepted w req url uid" and "fetched w url pdf_content"
    and "extracted w pdf_content text" and "structured w text parsed"
    and "generate_content w (DetectPrompt parsed) = Inr t"
    and "decode_response (loads w) t = Inr (JArr [])"
    and "py_get parsed ''personal_info'' (JObj []) = Inr personal_info"
  shows "GenerateContent (LetterPrompt personal_info (JArr [])) \<in>
           set (snd (process_credit_report w req)) \<and>
         (generate_content w (LetterPrompt personal_info (JArr [])) = Inr letter \<and>
          insert_execute w
            \<lparr>user_id = uid, pdf_url = url, extracted_text = text, parsed_data = parsed,
               violations = JArr [], dispute_letter = letter,
               processed_at = now_isoformat w\<rparr> = Inr d \<and>
          py_len (entry_or_empty parsed ''accounts'') = Inr na \<and>
          py_len (entry_or_empty parsed ''inquiries'') = Inr ni \<longrightarrow>
          process_credit_report w req =
            (Response
               (JObj [(''status'', JStr ''success''),
                      (''message'', JStr ''Credit report processed successfully''),
                      (''data'', d),
                      (''summary'',
                       JObj [(''violations_found'', JInt 0),
                             (''accounts_analyzed'', JInt (int na)),
                             (''inquiries_found'', JInt (int ni))])]) 200,
             HttpGet url # snd (extract_text_from_pdf_with_vision_ai w pdf_content) @
               [GenerateContent (ParsePrompt text), GenerateContent (DetectPrompt parsed),
                GenerateContent (LetterPrompt personal_info (JArr [])),
                SupabaseInsert
                  \<lparr>user_id = uid, pdf_url = url, extracted_text = text, parsed_data = parsed,
                     violations = JArr [], dispute_letter = letter,
                     processed_at = now_isoformat w\<rparr>]))"
proof -
  from assms(2) obtain resp where r: "requests_get w url = Inr resp"
    "raise_for_status resp = Inr ()" "content resp = pdf_content"
    by (auto simp add: fetched_def split: sum.splits)
  from assms(3) have x: "fst (extract_text_from_pdf_with_vision_ai w pdf_content) = Inr text"
    "text \<noteq> []"
    by (simp_all add: extracted_def)
  from assms(4) have p: "fst (parse_credit_report_with_gemini w text) = Inr parsed"
    "truthy parsed"
    by (simp_all add: structured_def)
  from assms(5,6) have d: "fst (detect_violations_with_gemini w parsed) = Inr (JArr [])"
    by (simp add: detect_result)
  have g: "fst (generate_dispute_letter_with_gemini w personal_info (JArr [])) =
             generate_content w (LetterPrompt personal_info (JArr []))"
    by (simp add: generate_dispute_letter_with_gemini_def invoke_def)
  have called: "GenerateContent (LetterPrompt personal_info (JArr [])) \<in>
           set (snd (process_credit_report w req))"
    by (simp add: process_accepted [OF assms(1)] pipeline_unfold r x p d g assms(7)
        split: sum.splits)
  have finished: "process_credit_report w req =
            (Response
               (JObj [(''status'', JStr ''success''),
                      (''message'', JStr ''Credit report processed successfully''),
                      (''data'', d),
                      (''summary'',
                       JObj [(''violations_found'', JInt 0),
                             (''accounts_analyzed'', JInt (int na)),
                             (''inquiries_found'', JInt (int ni))])]) 200,
             HttpGet url # snd (extract_text_from_pdf_with_vision_ai w pdf_content) @
               [GenerateContent (ParsePrompt text), GenerateContent (DetectPrompt parsed),
                GenerateContent (LetterPrompt personal_info (JArr [])),
                SupabaseInsert
                  \<lparr>user_id = uid, pdf_url = url, extracted_text = text, parsed_data = parsed,
                     violations = JArr [], dispute_letter = letter,
                     processed_at = now_isoformat w\<rparr>])"
    if l: "generate_content w (LetterPrompt personal_info (JArr [])) = Inr letter"
      and i: "insert_execute w
            \<lparr>user_id = uid, pdf_url = url, extracted_text = text, parsed_data = parsed,
               violations = JArr [], dispute_letter = letter,
               processed_at = now_isoformat w\<rparr> = Inr d"
      and na: "py_len (entry_or_empty parsed ''accounts'') = Inr na"
      and ni: "py_len (entry_or_empty parsed ''inquiries'') = Inr ni"
  proof -
    have "py_len (JArr []) = Inr 0" by simp
    from success_responseI [OF this assms(7) na ni]
    have s: "success_response d (JArr []) parsed = Inr (success_body d (summary 0 na ni))" .
    show ?thesis
      by (simp add: process_accepted [OF assms(1)] pipeline_unfold r x p d g l i s assms(7)
          success_body_def summary_def)
  qed
  from called finished show ?thesis by blast
qed

theorem empty_detection_continues_witness:
  "accepted no_violations_world sample_request sample_url sample_uid \<and>
   fetched no_violations_world sample_url ''%PDF-1.4'' \<and>
   extracted no_violations_world ''%PDF-1.4'' sample_text \<and>
   structured no_violations_world sample_text sample_parsed \<and>
   generate_content no_violations_world (DetectPrompt sample_parsed) = Inr ''[]'' \<and>
   decode_response (loads no_violations_world) ''[]'' = Inr (JArr []) \<and>
   py_get sample_parsed ''personal_info'' (JObj []) = Inr sample_personal_info \<and>
   GenerateContent (LetterPrompt sample_personal_info (JArr [])) \<in>
     set (snd (process_credit_report no_violations_world sample_request)) \<and>
   generate_content no_violations_world (LetterPrompt sample_personal_info (JArr [])) =
     Inr ''Dear Bureau'' \<and>
   py_len (entry_or_empty sample_parsed ''accounts'') = Inr 1 \<and>
   py_len (entry_or_empty sample_parsed ''inquiries'') = Inr 0 \<and>
   process_credit_report no_violations_world sample_request =
     (Response
        (JObj [(''status'', JStr ''success''),
               (''message'', JStr ''Credit report processed successfully''),
               (''data'', sample_stored),
               (''summary'',
                JObj [(''violations_found'', JInt 0),
                      (''accounts_analyzed'', JInt (int 1)),
                      (''inquiries_found'', JInt (int 0))])]) 200,
      HttpGet sample_url #
        snd (extract_text_from_pdf_with_vision_ai no_violations_world ''%PDF-1.4'') @
        [GenerateContent (ParsePrompt sample_text), GenerateContent (DetectPrompt sample_parsed),
         GenerateContent (LetterPrompt sample_personal_info (JArr [])),
         SupabaseInsert
           \<lparr>user_id = sample_uid, pdf_url = sample_url, extracted_text = sample_text,
              parsed_data = sample_parsed, violations = JArr [],
              dispute_letter = ''Dear Bureau'',
              processed_at = now_isoformat no_violations_world\<rparr>])"
proof -
  have a: "accepted no_violations_world sample_request sample_url sample_uid" by code_simp
  have f: "fetched no_violations_world sample_url ''%PDF-1.4''" by code_simp
  have x: "extracted no_violations_world ''%PDF-1.4'' sample_text" by code_simp
  have s: "structured no_violations_world sample_text sample_parsed" by code_simp
  have g: "generate_content no_violations_world (DetectPrompt sample_parsed) = Inr ''[]''"
    by code_simp
  have d: "decode_response (loads no_violations_world) ''[]'' = Inr (JArr [])" by code_simp
  have q: "py_get sample_parsed ''personal_info'' (JObj []) = Inr sample_personal_info"
    by code_simp
  have l: "generate_content no_violations_world (LetterPrompt sample_personal_info (JArr [])) =
             Inr ''Dear Bureau''"
    by code_simp
  have i: "insert_execute no_violations_world
             \<lparr>user_id = sample_uid, pdf_url = sample_url, extracted_text = sample_text,
                parsed_data = sample_parsed, violations = JArr [],
                dispute_letter = ''Dear Bureau'',
                processed_at = now_isoformat no_violations_world\<rparr> = Inr sample_stored"
    by code_simp
  have na: "py_len (entry_or_empty sample_parsed ''accounts'') = Inr 1" by code_simp
  have ni: "py_len (entry_or_empty sample_parsed ''inquiries'') = Inr 0" by code_simp
  note c = empty_detection_continues [OF a f x s g d q, where letter = "''Dear Bureau''"
      and d = sample_stored and na = 1 and ni = 0]
  from c l i na ni a f x s g d q show ?thesis by blast
qed

text \<open>
  C8. A run in which the letter step returns empty text should fail with status 500. The
  entry point has no check on the letter (the extracted text and the structured report are
  checked at lines 317 and 323): with an empty letter the record is stored with
  \<^verbatim>\<open>dispute_letter = ""\<close> and the response is status 200. (A letter step that raises does
  end the run with status 500, \<open>draft_failure_aborts\<close>, and the stored letter is the
  returned text, \<open>stored_letter_is_drafted\<close>.)
\<close>

theorem empty_letter_is_stored:
  "process_credit_report empty_letter_world sample_request =
     (Response (success_body sample_stored (summary 1 1 0)) 200,
      full_trace sample_parsed sample_personal_info sample_violations [])"
  by code_simp

theorem empty_letter_is_stored_witness:
  "generate_content empty_letter_world (LetterPrompt sample_personal_info sample_violations) =
     Inr [] \<and>
   fst (process_credit_report empty_letter_world sample_request) =
     Response (success_body sample_stored (summary 1 1 0)) 200 \<and>
   SupabaseInsert (sample_record sample_parsed sample_violations []) \<in>
     set (snd (process_credit_report empty_letter_world sample_request)) \<and>
   dispute_letter (sample_record sample_parsed sample_violations []) = []"
proof -
  have g: "generate_content empty_letter_world
             (LetterPrompt sample_personal_info sample_violations) = Inr []"
    by code_simp
  have r: "dispute_letter (sample_record sample_parsed sample_violations []) = []"
    by (simp add: sample_record_def)
  from empty_letter_is_stored g r show ?thesis by (simp add: full_trace_def)
qed



end
